theory Spec2Isabelle
  imports Complex_Main
begin

section \<open>Decimal arithmetic\<close>

text \<open>
  The program computes with \<^verbatim>\<open>Decimal\<close> values of the decimal.js library. A finite
  \<^verbatim>\<open>Decimal\<close> is a rational number, so the model uses \<^typ>\<open>rat\<close>. The library is
  used with its default configuration: the results of \<^verbatim>\<open>mul\<close> and \<^verbatim>\<open>div\<close> are rounded
  to \<^verbatim>\<open>precision = 20\<close> significant digits, and every rounding is \<^verbatim>\<open>ROUND_HALF_UP\<close>
  (to the nearest neighbour, a tie away from zero). \<^verbatim>\<open>NaN\<close> and the infinities are outside
  the model.
\<close>

type_synonym decimal = rat

definition PRECISION :: nat where
  "PRECISION = 20"

definition roundHalfUp :: "rat \<Rightarrow> int" where
  "roundHalfUp q = (if 0 \<le> q then \<lfloor>q + 1 / 2\<rfloor> else - \<lfloor>- q + 1 / 2\<rfloor>)"

text \<open>
  The decimal exponent of a positive number: the \<open>e\<close> with \<open>10 powi e \<le> q < 10 powi (e + 1)\<close>.
\<close>

function exponent10 :: "rat \<Rightarrow> int" where
  "exponent10 q =
     (if q \<le> 0 then 0
      else if 10 \<le> q then exponent10 (q / 10) + 1
      else if q < 1 then exponent10 (q * 10) - 1
      else 0)"
  by pat_completeness auto
termination
proof (relation "measure (\<lambda>q. nat \<lfloor>q\<rfloor> + 10 * nat \<lceil>1 / q\<rceil>)")
  show "wf (measure (\<lambda>q::rat. nat \<lfloor>q\<rfloor> + 10 * nat \<lceil>1 / q\<rceil>))"
    by simp
next
  fix q :: rat
  assume "\<not> q \<le> 0" and big: "10 \<le> q"
  have "\<lfloor>q / 10\<rfloor> < \<lfloor>q\<rfloor>"
    using big by (simp add: floor_less_iff) linarith
  moreover have "\<lceil>1 / (q / 10)\<rceil> \<le> \<lceil>1 / q\<rceil>"
  proof -
    have "1 / (q / 10) \<le> 1" using big by simp
    then have "\<lceil>1 / (q / 10)\<rceil> \<le> 1" by (simp add: ceiling_le_iff)
    moreover have "0 < 1 / q" using big by simp
    then have "1 \<le> \<lceil>1 / q\<rceil>" by (simp add: less_ceiling_iff)
    ultimately show ?thesis by linarith
  qed
  moreover have "0 \<le> \<lfloor>q / 10\<rfloor>" using big by simp
  ultimately show "(q / 10, q) \<in> measure (\<lambda>q. nat \<lfloor>q\<rfloor> + 10 * nat \<lceil>1 / q\<rceil>)"
    by simp linarith
next
  fix q :: rat
  assume pos: "\<not> q \<le> 0" and "\<not> 10 \<le> q" and small: "q < 1"
  have f0: "\<lfloor>q\<rfloor> = 0" using pos small by (simp add: floor_eq_iff)
  have f1: "\<lfloor>q * 10\<rfloor> \<le> 9"
    using small by (simp add: floor_le_iff)
  have f2: "0 \<le> \<lfloor>q * 10\<rfloor>" using pos by simp
  have c1: "2 \<le> \<lceil>1 / q\<rceil>"
  proof -
    have "1 < 1 / q" using pos small by simp
    then show ?thesis by (simp add: less_ceiling_iff)
  qed
  have c2: "\<lceil>1 / (q * 10)\<rceil> < \<lceil>1 / q\<rceil>"
  proof -
    have "1 / (q * 10) \<le> of_int \<lceil>1 / q\<rceil> / 10"
      using pos le_of_int_ceiling [of "1 / q"] by (simp add: field_simps)
    also have "\<dots> \<le> of_int (\<lceil>1 / q\<rceil> - 1)"
    proof -
      have "(2::rat) \<le> of_int \<lceil>1 / q\<rceil>"
        using c1 by (metis of_int_le_iff of_int_numeral)
      moreover have "rat_of_int (\<lceil>1 / q\<rceil> - 1) = of_int \<lceil>1 / q\<rceil> - 1"
        by simp
      ultimately show ?thesis by linarith
    qed
    finally have "\<lceil>1 / (q * 10)\<rceil> \<le> \<lceil>1 / q\<rceil> - 1"
      by (rule ceiling_le)
    then show ?thesis by linarith
  qed
  have c3: "0 < \<lceil>1 / (q * 10)\<rceil>"
    using pos by (simp add: less_ceiling_iff)
  show "(q * 10, q) \<in> measure (\<lambda>q. nat \<lfloor>q\<rfloor> + 10 * nat \<lceil>1 / q\<rceil>)"
    unfolding in_measure using f0 f1 f2 c1 c2 c3 by linarith
qed

declare exponent10.simps [simp del]

text \<open>Rounding to \<open>sd\<close> significant digits, as decimal.js does after an operation.\<close>

definition toSignificantDigits :: "nat \<Rightarrow> decimal \<Rightarrow> decimal" where
  "toSignificantDigits sd q =
     (if q = 0 then 0
      else let s = int sd - 1 - exponent10 \<bar>q\<bar>
           in of_int (roundHalfUp (q * 10 powi s)) * 10 powi (- s))"

definition dec_mul :: "decimal \<Rightarrow> decimal \<Rightarrow> decimal" where
  "dec_mul x y = toSignificantDigits PRECISION (x * y)"

definition dec_div :: "decimal \<Rightarrow> decimal \<Rightarrow> decimal" where
  "dec_div x y = toSignificantDigits PRECISION (x / y)"

definition toDecimalPlaces :: "nat \<Rightarrow> decimal \<Rightarrow> decimal" where
  "toDecimalPlaces dp q = of_int (roundHalfUp (q * 10 ^ dp)) / 10 ^ dp"

definition dec_round :: "decimal \<Rightarrow> decimal" where
  "dec_round q = of_int (roundHalfUp q)"

section \<open>Tokens and amount conversion\<close>

text \<open>
  A \<^verbatim>\<open>PublicKey\<close> of the chain SDK is a 256-bit number; \<^verbatim>\<open>equals\<close> compares the numbers.
\<close>

datatype pubkey = PublicKey nat

record token =
  address :: pubkey
  decimals :: nat
  supply' :: decimal
  mintAuthority :: "pubkey option"
  name :: "string option"
  symbol :: "string option"

text \<open>
  \<^verbatim>\<open>toDecimal(num) = new Decimal("" + num)\<close>: the decimal with the value of the number,
  the big integer or the decimal printed.
\<close>

definition toDecimal :: "decimal \<Rightarrow> decimal" where
  "toDecimal num = num"

text \<open>
  \<^verbatim>\<open>10 ** n\<close> is a JavaScript number, a double. The powers of ten up to \<open>10^22\<close> are
  doubles, and there the number is the power of ten. Above, the double that the engine
  computes is not the power of ten in general, and from \<open>n = 309\<close> on it is \<^verbatim>\<open>Infinity\<close>:
  these numbers are outside the model, which is the value \<open>None\<close>. So the two conversions
  are modelled for tokens with at most 22 decimals, and give \<open>None\<close> for the others.
\<close>

definition tenToThe :: "nat \<Rightarrow> decimal option" where
  "tenToThe n = (if n \<le> 22 then Some (10 ^ n) else None)"

definition minorAmountToMajor :: "decimal \<Rightarrow> token \<Rightarrow> decimal option" where
  "minorAmountToMajor minorAmount tok =
     (case tenToThe (decimals tok) of
        None \<Rightarrow> None
      | Some powerOfTen \<Rightarrow>
          Some (toDecimalPlaces (decimals tok) (dec_div (toDecimal minorAmount) powerOfTen)))"

definition majorAmountToMinor :: "decimal \<Rightarrow> token \<Rightarrow> decimal option" where
  "majorAmountToMinor majorAmount tok =
     (case tenToThe (decimals tok) of
        None \<Rightarrow> None
      | Some powerOfTen \<Rightarrow> Some (dec_round (dec_mul majorAmount powerOfTen)))"

section \<open>On-chain entities and the object store\<close>

text \<open>
  \<^verbatim>\<open>Pool\<close> and \<^verbatim>\<open>TokenAccount\<close> objects are shared by reference and mutated in place
  (\<^verbatim>\<open>setPrevious\<close>, \<^verbatim>\<open>addToHistory\<close>), so they live in a store: a reference is an
  address, and \<^verbatim>\<open>new\<close> takes the next free address. The objects at addresses below
  \<open>nextAddr\<close> are the ones that exist.
\<close>

type_synonym addr = nat

record 'o store =
  objs :: "addr \<Rightarrow> 'o"
  nextAddr :: addr

definition alloc :: "'o \<Rightarrow> 'o store \<Rightarrow> addr \<times> 'o store" where
  "alloc obj st =
     (nextAddr st, \<lparr>objs = (objs st)(nextAddr st := obj), nextAddr = Suc (nextAddr st)\<rparr>)"

text \<open>
  Modelled from the spec: the base class \<^verbatim>\<open>OnChainEntity\<close> (\<^verbatim>\<open>api/OnChainEntity.ts\<close>)
  is not among the sources. Its two fields are the ones the constructors of its
  subclasses pass on (\<^verbatim>\<open>super(currentSlot, previous)\<close>).
\<close>

record onChainEntity =
  lastUpdatedSlot :: "nat option"
  previous :: "addr option"

text \<open>
  Modelled from the spec: \<^verbatim>\<open>setPrevious(entity)\<close> attaches a prior snapshot, and
  \<^verbatim>\<open>getPrevious()\<close> reads it.
\<close>

definition setPrevious ::
  "addr \<Rightarrow> addr \<Rightarrow> 'a onChainEntity_scheme store \<Rightarrow> 'a onChainEntity_scheme store" where
  "setPrevious this entity st =
     st\<lparr>objs := (objs st)(this := (objs st this)\<lparr>previous := Some entity\<rparr>)\<rparr>"

definition getPrevious :: "'a onChainEntity_scheme store \<Rightarrow> addr \<Rightarrow> addr option" where
  "getPrevious st this = previous (objs st this)"

text \<open>
  Modelled from the spec: \<^verbatim>\<open>addToHistory(newSnapshot)\<close> mutates the entity in place,
  setting \<^verbatim>\<open>previous\<close> to \<^verbatim>\<open>newSnapshot\<close> after first transplanting the entity's
  existing \<^verbatim>\<open>previous\<close> onto \<^verbatim>\<open>newSnapshot\<close>.
\<close>

definition addToHistory ::
  "addr \<Rightarrow> addr \<Rightarrow> 'a onChainEntity_scheme store \<Rightarrow> 'a onChainEntity_scheme store" where
  "addToHistory this newSnapshot st =
     (let st1 = st\<lparr>objs := (objs st)
                   (newSnapshot := (objs st newSnapshot)\<lparr>previous := previous (objs st this)\<rparr>)\<rparr>
      in st1\<lparr>objs := (objs st1)(this := (objs st1 this)\<lparr>previous := Some newSnapshot\<rparr>)\<rparr>)"

text \<open>
  Modelled from the spec: \<^verbatim>\<open>clone()\<close> produces a structurally-equal independent copy
  (shallow): a new object with the fields of this one.
\<close>

definition clone :: "addr \<Rightarrow> 'o store \<Rightarrow> addr \<times> 'o store" where
  "clone this st = alloc (objs st this) st"

text \<open>Walking \<^verbatim>\<open>previous\<close> \<open>k\<close> times from a reference that may be undefined.\<close>

fun walk :: "'a onChainEntity_scheme store \<Rightarrow> nat \<Rightarrow> addr option \<Rightarrow> addr option" where
  "walk st 0 p = p"
| "walk st (Suc k) p = (case p of None \<Rightarrow> None | Some a \<Rightarrow> walk st k (getPrevious st a))"

text \<open>Every \<^verbatim>\<open>previous\<close> reference of an existing object is to an existing object.\<close>

definition wellFormed :: "'a onChainEntity_scheme store \<Rightarrow> bool" where
  "wellFormed st =
     list_all (\<lambda>a. case previous (objs st a) of None \<Rightarrow> True | Some p \<Rightarrow> p < nextAddr st)
       [0..<nextAddr st]"

section \<open>Token accounts\<close>

record tokenAccount = onChainEntity +
  mint :: token
  address :: pubkey
  balance :: decimal

definition Token_equals :: "token \<Rightarrow> token \<Rightarrow> bool" where
  "Token_equals this other = (token.address this = token.address other)"

definition sameToken :: "tokenAccount \<Rightarrow> tokenAccount \<Rightarrow> bool" where
  "sameToken this other = Token_equals (mint this) (mint other)"

text \<open>
  \<^verbatim>\<open>new TokenAccount(mint, address, balance, currentSlot, previous)\<close>.
\<close>

definition newTokenAccount ::
  "token \<Rightarrow> pubkey \<Rightarrow> decimal \<Rightarrow> nat option \<Rightarrow> addr option \<Rightarrow> tokenAccount store
    \<Rightarrow> addr \<times> tokenAccount store" where
  "newTokenAccount m a b currentSlot prev =
     alloc \<lparr>lastUpdatedSlot = currentSlot, previous = prev, mint = m,
            tokenAccount.address = a, balance = toDecimal b\<rparr>"

text \<open>
  \<^verbatim>\<open>toNumber()\<close> and the division of the two JavaScript numbers: the model computes
  with the exact values, which is what IEEE-754 arithmetic gives whenever the operands
  and the quotient are representable.
\<close>

definition toNumber :: "decimal \<Rightarrow> rat" where
  "toNumber d = d"

definition dec_pow :: "decimal \<Rightarrow> nat \<Rightarrow> decimal" where
  "dec_pow x n = toSignificantDigits PRECISION (x ^ n)"

definition proportionOfTotalSupply :: "tokenAccount \<Rightarrow> rat" where
  "proportionOfTotalSupply this =
     (if supply' (mint this) = 0 then 0
      else let precision = 5;
               scaling = dec_pow 10 precision
           in toNumber (dec_div (dec_mul (balance this) scaling) (supply' (mint this)))
                / toNumber scaling)"

section \<open>Serialization\<close>

text \<open>
  The printers and parsers of the libraries: \<^verbatim>\<open>toBase58()\<close> and \<^verbatim>\<open>new PublicKey(string)\<close>
  of the chain SDK, \<^verbatim>\<open>toString()\<close> and \<^verbatim>\<open>new Decimal(string)\<close> of decimal.js.
\<close>

record codec =
  toBase58 :: "pubkey \<Rightarrow> string"
  newPublicKey :: "string \<Rightarrow> pubkey"
  decimalToString :: "decimal \<Rightarrow> string"
  newDecimal :: "string \<Rightarrow> decimal"

record serializableToken =
  address :: string
  decimals :: nat
  supply' :: string
  mintAuthority :: "string option"
  name :: "string option"
  symbol :: "string option"

datatype serializableTokenAccount =
  SerializableTokenAccount serializableToken string string "nat option"
    "serializableTokenAccount option"

definition Token_serialize :: "codec \<Rightarrow> token \<Rightarrow> serializableToken" where
  "Token_serialize c this =
     \<lparr>serializableToken.address = toBase58 c (token.address this),
      serializableToken.decimals = token.decimals this,
      serializableToken.supply' = decimalToString c (token.supply' this),
      serializableToken.mintAuthority = map_option (toBase58 c) (token.mintAuthority this),
      serializableToken.name = token.name this,
      serializableToken.symbol = token.symbol this\<rparr>"

text \<open>
  \<^verbatim>\<open>serializableToken.mintAuthority && new PublicKey(...)\<close>: a base58 string is never
  empty, so the guard is the test for \<^verbatim>\<open>undefined\<close>.
\<close>

definition Token_from :: "codec \<Rightarrow> serializableToken \<Rightarrow> token" where
  "Token_from c serializableToken =
     \<lparr>token.address = newPublicKey c (serializableToken.address serializableToken),
      token.decimals = serializableToken.decimals serializableToken,
      token.supply' = toDecimal (newDecimal c (serializableToken.supply' serializableToken)),
      token.mintAuthority =
        map_option (newPublicKey c) (serializableToken.mintAuthority serializableToken),
      token.name = serializableToken.name serializableToken,
      token.symbol = serializableToken.symbol serializableToken\<rparr>"

text \<open>
  \<^verbatim>\<open>serialize\<close> follows the \<^verbatim>\<open>previous\<close> references; on a cyclic chain the recursion
  does not return, which is the value \<open>None\<close>.
\<close>

partial_function (option) TokenAccount_serialize ::
  "codec \<Rightarrow> tokenAccount store \<Rightarrow> addr \<Rightarrow> serializableTokenAccount option" where
  "TokenAccount_serialize c st this =
     (case previous (objs st this) of
        None \<Rightarrow>
          Some (SerializableTokenAccount
            (Token_serialize c (mint (objs st this)))
            (toBase58 c (tokenAccount.address (objs st this)))
            (decimalToString c (balance (objs st this)))
            (lastUpdatedSlot (objs st this))
            None)
      | Some p \<Rightarrow>
          Option.bind (TokenAccount_serialize c st p)
            (\<lambda>sp. Some (SerializableTokenAccount
               (Token_serialize c (mint (objs st this)))
               (toBase58 c (tokenAccount.address (objs st this)))
               (decimalToString c (balance (objs st this)))
               (lastUpdatedSlot (objs st this))
               (Some sp))))"

fun TokenAccount_from ::
  "codec \<Rightarrow> serializableTokenAccount \<Rightarrow> tokenAccount store \<Rightarrow> addr \<times> tokenAccount store" where
  "TokenAccount_from c (SerializableTokenAccount m a b slot prev) st =
     (case prev of
        None \<Rightarrow>
          newTokenAccount (Token_from c m) (newPublicKey c a) (newDecimal c b) slot None st
      | Some sp \<Rightarrow>
          (case TokenAccount_from c sp st of
             (p, st1) \<Rightarrow>
               newTokenAccount (Token_from c m) (newPublicKey c a) (newDecimal c b) slot
                 (Some p) st1))"

text \<open>
  Two objects are structurally equal when their fields are equal and their
  \<^verbatim>\<open>previous\<close> references are both undefined or structurally equal: when the chains
  from them carry the same list of snapshots.
\<close>

type_synonym snapshot = "token \<times> pubkey \<times> decimal \<times> nat option"

definition snapshotOf :: "tokenAccount \<Rightarrow> snapshot" where
  "snapshotOf obj = (mint obj, tokenAccount.address obj, balance obj, lastUpdatedSlot obj)"

fun isChain :: "tokenAccount store \<Rightarrow> addr option \<Rightarrow> snapshot list \<Rightarrow> bool" where
  "isChain st p [] = (p = None)"
| "isChain st p (x # xs) =
     (case p of
        None \<Rightarrow> False
      | Some a \<Rightarrow> x = snapshotOf (objs st a) \<and> isChain st (previous (objs st a)) xs)"

section \<open>Errors, instructions and the state of the client\<close>

text \<open>
  \<^verbatim>\<open>assert\<close> throws an \<^verbatim>\<open>AssertionError\<close>, the code itself and the libraries throw
  \<^verbatim>\<open>Error\<close>, reading a property of \<^verbatim>\<open>undefined\<close> throws a \<^verbatim>\<open>TypeError\<close>, and a call of
  the chain SDK may reject with an error of its own.
\<close>

datatype error = AssertionError string | Error string | TypeError string | RpcError string

text \<open>
  \<^verbatim>\<open>new u64("" + number)\<close> and \<^verbatim>\<open>new Numberu64("" + number)\<close>: the number is printed, and
  the big-number library reads the print as a whole number in base ten. It takes a leading
  minus sign as the sign and throws on every other character that is not a digit: on the
  decimal point of a number that is not whole, and on the exponent with which a number
  from \<open>10^21\<close> on is printed. The object is the signed whole number that was read.
\<close>

datatype u64 = U64 (u64BN: int)

datatype numberu64 = Numberu64 (numberu64BN: int)

definition printsAsWholeNumber :: "decimal \<Rightarrow> bool" where
  "printsAsWholeNumber number = (of_int \<lfloor>number\<rfloor> = number \<and> \<bar>number\<bar> < 10 ^ 21)"

definition toU64 :: "decimal \<Rightarrow> error + u64" where
  "toU64 number =
     (if printsAsWholeNumber number then Inr (U64 \<lfloor>number\<rfloor>)
      else Inl (Error ''Invalid character''))"

definition toNumberU64 :: "decimal \<Rightarrow> error + numberu64" where
  "toNumberU64 number =
     (if printsAsWholeNumber number then Inr (Numberu64 \<lfloor>number\<rfloor>)
      else Inl (Error ''Invalid character''))"

text \<open>
  \<^verbatim>\<open>toBuffer()\<close>, with which the SDK functions that build an instruction encode an amount:
  the eight bytes, little-endian, of the magnitude of the number, here the number the
  bytes stand for. The sign is not encoded, and a magnitude that does not fit into
  eight bytes is refused.
\<close>

definition u64_toBuffer :: "u64 \<Rightarrow> error + nat" where
  "u64_toBuffer amount =
     (if \<bar>u64BN amount\<bar> < 2 ^ 64 then Inr (nat \<bar>u64BN amount\<bar>)
      else Inl (AssertionError ''u64 too large''))"

definition Numberu64_toBuffer :: "numberu64 \<Rightarrow> error + nat" where
  "Numberu64_toBuffer amount =
     (if \<bar>numberu64BN amount\<bar> < 2 ^ 64 then Inr (nat \<bar>numberu64BN amount\<bar>)
      else Inl (AssertionError ''Numberu64 too large''))"

definition TOKEN_PROGRAM_ID :: pubkey where
  "TOKEN_PROGRAM_ID =
     PublicKey 3106054211088883198575105191760876350940303353676611666299516346430146937001"

text \<open>
  An instruction is the list of arguments the code hands to the SDK function that builds
  it, in the order of the call. The amount that the instruction carries for an argument
  that is a \<^verbatim>\<open>u64\<close> or a \<^verbatim>\<open>Numberu64\<close> is what \<^verbatim>\<open>toBuffer()\<close> gives for it.
\<close>

record approveArgs =
  approveProgramId :: pubkey
  approveSource :: pubkey
  approveDelegate :: pubkey
  approveOwner :: pubkey
  approveAmount :: u64

record swapArgs =
  swapPoolAddress :: pubkey
  swapAuthority :: pubkey
  swapFromAccount :: pubkey
  swapPoolIntoAccount :: pubkey
  swapPoolFromAccount :: pubkey
  swapToAccount :: pubkey
  swapPoolToken :: pubkey
  swapFeeAccount :: pubkey
  swapIdentity :: pubkey
  swapSwapProgramId :: pubkey
  swapTokenProgramId :: pubkey
  swapAmountIn :: decimal
  swapMinimumAmountOut :: numberu64

record depositArgs =
  depositPoolAddress :: pubkey
  depositAuthority :: pubkey
  depositFromAAccount :: pubkey
  depositFromBAccount :: pubkey
  depositPoolTokenA :: pubkey
  depositPoolTokenB :: pubkey
  depositPoolToken :: pubkey
  depositPoolTokenAccount :: pubkey
  depositSwapProgramId :: pubkey
  depositTokenProgramId :: pubkey
  depositPoolTokenAmount :: numberu64
  depositMaximumTokenA :: numberu64
  depositMaximumTokenB :: numberu64

datatype instruction =
    Approve approveArgs
  | Swap swapArgs
  | Deposit depositArgs
  | InitAccount pubkey pubkey pubkey pubkey
  | OtherInstruction string

text \<open>
  \<^verbatim>\<open>Token.createApproveInstruction\<close>, \<^verbatim>\<open>TokenSwap.swapInstruction\<close> and
  \<^verbatim>\<open>TokenSwap.depositInstruction\<close> of the SDK encode their amounts, in the order of their
  parameters, and throw when one of them does not fit. The amount that goes into a swap is
  handed over as the JavaScript number it is, and \<^verbatim>\<open>swapInstruction\<close> builds the big
  number from it with \<^verbatim>\<open>new Numberu64(amountIn)\<close>: the whole part of a number below
  \<open>2^53\<close>, with its sign, and an error from \<open>2^53\<close> on.
\<close>

definition Numberu64_ofNumber :: "decimal \<Rightarrow> error + numberu64" where
  "Numberu64_ofNumber number =
     (if \<bar>number\<bar> < 2 ^ 53
      then Inr (Numberu64 (if 0 \<le> number then \<lfloor>number\<rfloor> else - \<lfloor>- number\<rfloor>))
      else Inl (Error ''Assertion failed''))"

definition Token_createApproveInstruction :: "approveArgs \<Rightarrow> error + instruction" where
  "Token_createApproveInstruction args =
     (case u64_toBuffer (approveAmount args) of
        Inl e \<Rightarrow> Inl e
      | Inr amount \<Rightarrow> Inr (Approve args))"

definition TokenSwap_swapInstruction :: "swapArgs \<Rightarrow> error + instruction" where
  "TokenSwap_swapInstruction args =
     (case Numberu64_ofNumber (swapAmountIn args) of
        Inl e \<Rightarrow> Inl e
      | Inr amountIn' \<Rightarrow>
          (case Numberu64_toBuffer amountIn' of
             Inl e \<Rightarrow> Inl e
           | Inr amountIn \<Rightarrow>
               (case Numberu64_toBuffer (swapMinimumAmountOut args) of
                  Inl e \<Rightarrow> Inl e
                | Inr minimumAmountOut \<Rightarrow> Inr (Swap args))))"

definition TokenSwap_depositInstruction :: "depositArgs \<Rightarrow> error + instruction" where
  "TokenSwap_depositInstruction args =
     (case Numberu64_toBuffer (depositPoolTokenAmount args) of
        Inl e \<Rightarrow> Inl e
      | Inr poolTokenAmount' \<Rightarrow>
          (case Numberu64_toBuffer (depositMaximumTokenA args) of
             Inl e \<Rightarrow> Inl e
           | Inr maximumTokenA \<Rightarrow>
               (case Numberu64_toBuffer (depositMaximumTokenB args) of
                  Inl e \<Rightarrow> Inl e
                | Inr maximumTokenB \<Rightarrow> Inr (Deposit args))))"

record transaction =
  recentBlockhash :: string
  signatures :: "pubkey list"
  instructions :: "instruction list"

section \<open>Pools\<close>

text \<open>
  Modelled from the spec: the class \<^verbatim>\<open>Pool\<close> (\<^verbatim>\<open>api/pool/Pool.ts\<close>) is not among the
  sources. Its fields are the arguments of the constructor call in \<^verbatim>\<open>getPool\<close>; the
  token accounts are references.
\<close>

record pool = onChainEntity +
  address :: pubkey
  tokenA :: addr
  tokenB :: addr
  poolToken :: token
  feeAccount :: addr
  programId :: pubkey
  nonce :: nat
  feeRatio :: rat

datatype direction = Up | Down

record tokenAmounts =
  poolTokenAmount :: decimal
  tokenAAmount :: decimal
  tokenBAmount :: decimal

text \<open>
  Modelled from the spec: \<^verbatim>\<open>adjustForSlippage(amount, direction, slippagePercent)\<close> of
  \<^verbatim>\<open>Pool.ts\<close>: direction "up" gives \<^verbatim>\<open>amount * (1 + slippage/100)\<close>, direction "down"
  gives \<^verbatim>\<open>amount * (1 - slippage/100)\<close>.
\<close>

definition adjustForSlippage :: "decimal \<Rightarrow> direction \<Rightarrow> decimal \<Rightarrow> decimal" where
  "adjustForSlippage amount dir slippagePercent =
     (case dir of
        Up \<Rightarrow> amount * (1 + slippagePercent / 100)
      | Down \<Rightarrow> amount * (1 - slippagePercent / 100))"

text \<open>
  Modelled from the spec: \<^verbatim>\<open>getPoolTokenValueOfTokenAAmount(amount)\<close> of \<^verbatim>\<open>Pool.ts\<close> is
  \<^verbatim>\<open>amount / reserveA * poolTokenSupply\<close>, and fails when the reserve of token A is zero;
  \<^verbatim>\<open>calculateAmountsWithSlippage(poolTokenAmount, direction, slippage)\<close> computes the
  amounts of token A and token B proportional to the current reserves and adjusts each
  for the slippage, the default slippage when none is given. The reserves are the
  balances of the pool's two token accounts, which the pool holds by reference. The API
  is verified for every behaviour of these methods; these definitions serve in the
  concrete runs.
\<close>

definition getPoolTokenValueOfTokenAAmount ::
  "(addr \<Rightarrow> tokenAccount) \<Rightarrow> pool \<Rightarrow> decimal \<Rightarrow> error + decimal" where
  "getPoolTokenValueOfTokenAAmount deref this amount =
     (if balance (deref (tokenA this)) = 0 then Inl (Error ''DivisionByZero'')
      else Inr (amount / balance (deref (tokenA this)) * token.supply' (poolToken this)))"

definition calculateAmountsWithSlippage ::
  "decimal \<Rightarrow> (addr \<Rightarrow> tokenAccount) \<Rightarrow> pool \<Rightarrow> decimal \<Rightarrow> direction \<Rightarrow> decimal option
    \<Rightarrow> error + tokenAmounts" where
  "calculateAmountsWithSlippage defaultSlippage deref this poolTokenAmount' dir slippage' =
     (let s = (case slippage' of None \<Rightarrow> defaultSlippage | Some given \<Rightarrow> given);
          share = poolTokenAmount' / token.supply' (poolToken this)
      in Inr \<lparr>poolTokenAmount = poolTokenAmount',
              tokenAAmount = adjustForSlippage (share * balance (deref (tokenA this))) dir s,
              tokenBAmount = adjustForSlippage (share * balance (deref (tokenB this))) dir s\<rparr>)"

text \<open>
  The state of the client: the chain and the wallet as the SDK sees them (\<open>chain\<close>), the
  objects, and the transactions handed to the wallet for signing, in order (\<open>sent\<close>).
\<close>

record 'w state =
  chain :: 'w
  accounts :: "tokenAccount store"
  pools :: "pool store"
  sent :: "transaction list"

section \<open>The chain SDK and the missing modules\<close>

text \<open>
  What stands at the path \<^verbatim>\<open>data.parsed.info\<close> of an account that the node has parsed is
  an object of the account's own kind. The code gives it the type
  \<^verbatim>\<open>ParsedTokenAccountInfo\<close> unchecked and reads \<^verbatim>\<open>mint\<close> and \<^verbatim>\<open>tokenAmount.amount\<close> from
  it: the key and the amount of a token account. In the object of an account of another
  kind (a mint, say, which has \<^verbatim>\<open>decimals\<close> and \<^verbatim>\<open>supply\<close>) a property of these
  names need not exist: \<open>infoMint\<close> is \<open>None\<close> when \<^verbatim>\<open>mint\<close> is undefined, \<open>infoTokenAmount\<close>
  is \<open>None\<close> when \<^verbatim>\<open>tokenAmount\<close> is.
\<close>

record parsedTokenAccountInfo =
  infoMint :: "pubkey option"
  infoTokenAmount :: "nat option"

text \<open>
  The account data of \<^verbatim>\<open>getParsedAccountInfo\<close> is a \<^verbatim>\<open>Buffer\<close> or \<^verbatim>\<open>ParsedAccountData\<close>;
  the option is what stands at the path \<^verbatim>\<open>parsed.info\<close>.
\<close>

datatype accountData = Buffer "nat list" | ParsedAccountData string "parsedTokenAccountInfo option"

record accountInfo =
  accountData :: accountData
  accountOwner :: pubkey

record parsedAccountInfoResult =
  contextSlot :: nat
  accountValue :: "accountInfo option"

record mintInfo =
  mintDecimals :: nat
  mintSupply :: nat
  mintMintAuthority :: "pubkey option"

record tokenConfig =
  mintAddress :: pubkey
  tokenName :: string
  tokenSymbol :: string

record tokenSwapInfo =
  swapTokenAccountA :: pubkey
  swapTokenAccountB :: pubkey
  swapInfoFeeAccount :: pubkey
  swapInfoPoolToken :: pubkey
  swapNonce :: nat
  tradeFeeNumerator :: nat
  tradeFeeDenominator :: nat

text \<open>
  What the code calls and the sources do not hold: the connection and the token classes of
  the chain SDK, the request cache, the wallet, and the methods and the constant of
  \<^verbatim>\<open>Pool.ts\<close>. Each is a parameter; a call of the SDK reads and changes the chain only.
  \<open>PublicKey_ofUndefined\<close> is what \<^verbatim>\<open>new PublicKey(undefined)\<close> does: depending on the
  version of the SDK it throws, or builds the key of the number zero.
\<close>

record 'w env =
  connection_getParsedAccountInfo :: "pubkey \<Rightarrow> 'w \<Rightarrow> (error + parsedAccountInfoResult) \<times> 'w"
  connection_getRecentBlockhash :: "'w \<Rightarrow> (error + string) \<times> 'w"
  SPLToken_getMintInfo :: "pubkey \<Rightarrow> 'w \<Rightarrow> (error + mintInfo) \<times> 'w"
  PublicKey_ofUndefined :: "error + pubkey"
  cache_tokenInfo :: "pubkey \<Rightarrow> 'w \<Rightarrow> (error + token) \<times> 'w"
  tokenConfigForCluster :: "tokenConfig list option"
  TokenSwap_loadTokenSwap :: "pubkey \<Rightarrow> 'w \<Rightarrow> (error + tokenSwapInfo) \<times> 'w"
  swapProgramId :: pubkey
  wallet_pubkey :: "'w \<Rightarrow> pubkey option"
  wallet_signAndSubmit :: "transaction \<Rightarrow> 'w \<Rightarrow> (error + string) \<times> 'w"
  Account_new :: "'w \<Rightarrow> pubkey \<times> 'w"
  makeNewAccountInstruction :: "pubkey \<Rightarrow> 'w \<Rightarrow> (error + instruction) \<times> 'w"
  Pool_tokenSwapAuthority :: "pool \<Rightarrow> 'w \<Rightarrow> (error + pubkey) \<times> 'w"
  Pool_calculateAmountInOtherToken ::
    "(addr \<Rightarrow> tokenAccount) \<Rightarrow> pool \<Rightarrow> token \<Rightarrow> decimal \<Rightarrow> bool \<Rightarrow> error + decimal"
  Pool_getPoolTokenValueOfTokenAAmount ::
    "(addr \<Rightarrow> tokenAccount) \<Rightarrow> pool \<Rightarrow> decimal \<Rightarrow> error + decimal"
  Pool_calculateAmountsWithSlippage ::
    "(addr \<Rightarrow> tokenAccount) \<Rightarrow> pool \<Rightarrow> decimal \<Rightarrow> direction \<Rightarrow> decimal option
      \<Rightarrow> error + tokenAmounts"
  DEFAULT_SLIPPAGE :: decimal

section \<open>Asynchronous code\<close>

text \<open>
  An \<^verbatim>\<open>async\<close> function is a function of the state that resolves with a value or rejects
  with an error; \<^verbatim>\<open>await\<close> is sequencing, and a rejection skips what follows.
\<close>

definition resolve :: "'a \<Rightarrow> 's \<Rightarrow> (error + 'a) \<times> 's" where
  "resolve x s = (Inr x, s)"

definition reject :: "error \<Rightarrow> 's \<Rightarrow> (error + 'a) \<times> 's" where
  "reject e s = (Inl e, s)"

definition andThen ::
  "('s \<Rightarrow> (error + 'a) \<times> 's) \<Rightarrow> ('a \<Rightarrow> 's \<Rightarrow> (error + 'b) \<times> 's) \<Rightarrow> 's \<Rightarrow> (error + 'b) \<times> 's" where
  "andThen m f s = (case m s of (Inl e, s') \<Rightarrow> (Inl e, s') | (Inr x, s') \<Rightarrow> f x s')"

definition gets :: "('s \<Rightarrow> 'a) \<Rightarrow> 's \<Rightarrow> (error + 'a) \<times> 's" where
  "gets f s = (Inr (f s), s)"

definition settle :: "(error + 'a) \<Rightarrow> 's \<Rightarrow> (error + 'a) \<times> 's" where
  "settle r s = (r, s)"

text \<open>A call of the SDK, on the chain component of the state.\<close>

definition onChain :: "('w \<Rightarrow> (error + 'a) \<times> 'w) \<Rightarrow> 'w state \<Rightarrow> (error + 'a) \<times> 'w state" where
  "onChain call st = (case call (chain st) of (r, w) \<Rightarrow> (r, st\<lparr>chain := w\<rparr>))"

definition account :: "'w state \<Rightarrow> addr \<Rightarrow> tokenAccount" where
  "account st a = objs (accounts st) a"

definition poolAt :: "'w state \<Rightarrow> addr \<Rightarrow> pool" where
  "poolAt st p = objs (pools st) p"

definition assertThat :: "bool \<Rightarrow> string \<Rightarrow> 's \<Rightarrow> (error + unit) \<times> 's" where
  "assertThat condition message = (if condition then resolve () else reject (AssertionError message))"

section \<open>The wallet layer\<close>

definition getWallet :: "'w env \<Rightarrow> 'w state \<Rightarrow> (error + pubkey) \<times> 'w state" where
  "getWallet env st =
     (case wallet_pubkey env (chain st) of
        None \<Rightarrow> reject (Error ''notification.error.noWallet'') st
      | Some k \<Rightarrow> resolve k st)"

definition connected :: "'w env \<Rightarrow> 'w state \<Rightarrow> (error + unit) \<times> 'w state" where
  "connected env st =
     (case wallet_pubkey env (chain st) of
        None \<Rightarrow> reject (Error ''Connect first'') st
      | Some k \<Rightarrow> resolve () st)"

definition makeTransaction ::
  "'w env \<Rightarrow> instruction list \<Rightarrow> pubkey list \<Rightarrow> 'w state \<Rightarrow> (error + transaction) \<times> 'w state" where
  "makeTransaction env instrs signers =
     andThen (connected env) (\<lambda>_.
     andThen (onChain (connection_getRecentBlockhash env)) (\<lambda>blockhash.
     andThen (getWallet env) (\<lambda>walletKey.
     resolve \<lparr>recentBlockhash = blockhash, signatures = walletKey # signers,
              instructions = instrs\<rparr>)))"

definition sendTransaction ::
  "'w env \<Rightarrow> transaction \<Rightarrow> 'w state \<Rightarrow> (error + string) \<times> 'w state" where
  "sendTransaction env transaction =
     andThen (connected env) (\<lambda>_.
     andThen (\<lambda>st. resolve () (st\<lparr>sent := sent st @ [transaction]\<rparr>)) (\<lambda>_.
     onChain (wallet_signAndSubmit env transaction)))"

section \<open>The token API\<close>

definition getConfigForToken :: "'w env \<Rightarrow> pubkey \<Rightarrow> tokenConfig option" where
  "getConfigForToken env a =
     (case tokenConfigForCluster env of
        None \<Rightarrow> None
      | Some clusterConfig \<Rightarrow> find (\<lambda>c. mintAddress c = a) clusterConfig)"

definition tokenInfoUncached :: "'w env \<Rightarrow> pubkey \<Rightarrow> 'w state \<Rightarrow> (error + token) \<times> 'w state" where
  "tokenInfoUncached env m =
     andThen (onChain (SPLToken_getMintInfo env m)) (\<lambda>info.
     resolve \<lparr>token.address = m,
              token.decimals = mintDecimals info,
              token.supply' = toDecimal (of_nat (mintSupply info)),
              token.mintAuthority = mintMintAuthority info,
              token.name = map_option tokenName (getConfigForToken env m),
              token.symbol = map_option tokenSymbol (getConfigForToken env m)\<rparr>)"

definition tokenInfo :: "'w env \<Rightarrow> pubkey \<Rightarrow> 'w state \<Rightarrow> (error + token) \<times> 'w state" where
  "tokenInfo env m = onChain (cache_tokenInfo env m)"

definition extractParsedTokenAccountInfo :: "accountInfo option \<Rightarrow> parsedTokenAccountInfo option" where
  "extractParsedTokenAccountInfo parsedAccountInfoResult =
     (case parsedAccountInfoResult of
        None \<Rightarrow> None
      | Some info \<Rightarrow>
          (case accountData info of
             Buffer bytes \<Rightarrow> None
           | ParsedAccountData program parsedInfo \<Rightarrow> parsedInfo))"

definition inAccounts ::
  "(tokenAccount store \<Rightarrow> 'a \<times> tokenAccount store) \<Rightarrow> 'w state \<Rightarrow> (error + 'a) \<times> 'w state" where
  "inAccounts f st = (case f (accounts st) of (x, s) \<Rightarrow> (Inr x, st\<lparr>accounts := s\<rparr>))"

definition inPools ::
  "(pool store \<Rightarrow> 'a \<times> pool store) \<Rightarrow> 'w state \<Rightarrow> (error + 'a) \<times> 'w state" where
  "inPools f st = (case f (pools st) of (x, s) \<Rightarrow> (Inr x, st\<lparr>pools := s\<rparr>))"

text \<open>
  \<^verbatim>\<open>new PublicKey(parsedInfo.mint)\<close> and \<^verbatim>\<open>parsedInfo.tokenAmount.amount\<close>, where the
  property may be undefined.
\<close>

definition newPublicKeyOf :: "'w env \<Rightarrow> pubkey option \<Rightarrow> error + pubkey" where
  "newPublicKeyOf env key = (case key of Some k \<Rightarrow> Inr k | None \<Rightarrow> PublicKey_ofUndefined env)"

definition amountOf :: "nat option \<Rightarrow> error + nat" where
  "amountOf tokenAmount =
     (case tokenAmount of
        Some amount \<Rightarrow> Inr amount
      | None \<Rightarrow> Inl (TypeError ''Cannot read property amount of undefined''))"

definition tokenAccountInfo ::
  "'w env \<Rightarrow> pubkey \<Rightarrow> 'w state \<Rightarrow> (error + addr option) \<times> 'w state" where
  "tokenAccountInfo env a =
     andThen (onChain (connection_getParsedAccountInfo env a)) (\<lambda>getParsedAccountInfoResult.
       case extractParsedTokenAccountInfo (accountValue getParsedAccountInfoResult) of
         None \<Rightarrow> resolve None
       | Some parsedInfo \<Rightarrow>
           andThen (settle (newPublicKeyOf env (infoMint parsedInfo))) (\<lambda>mintKey.
           andThen (tokenInfo env mintKey) (\<lambda>mintTokenInfo.
           andThen (settle (amountOf (infoTokenAmount parsedInfo))) (\<lambda>amount.
           andThen (inAccounts (newTokenAccount mintTokenInfo a
                      (toDecimal (of_nat amount))
                      (Some (contextSlot getParsedAccountInfoResult)) None)) (\<lambda>created.
           resolve (Some created))))))"

definition updateTokenAccountInfo ::
  "'w env \<Rightarrow> addr \<Rightarrow> 'w state \<Rightarrow> (error + addr option) \<times> 'w state" where
  "updateTokenAccountInfo env tokenAccount =
     andThen (gets (\<lambda>st. tokenAccount.address (account st tokenAccount))) (\<lambda>a.
     andThen (tokenAccountInfo env a) (\<lambda>updatedTokenAccount.
       case updatedTokenAccount of
         None \<Rightarrow> resolve None
       | Some updated \<Rightarrow>
           andThen (inAccounts (\<lambda>s. ((), setPrevious updated tokenAccount s))) (\<lambda>_.
           resolve (Some updated))))"

definition createAccountForToken ::
  "'w env \<Rightarrow> token \<Rightarrow> pubkey option \<Rightarrow> 'w state \<Rightarrow> (error + addr) \<times> 'w state" where
  "createAccountForToken env tok owner =
     andThen (getWallet env) (\<lambda>_.
     andThen (tokenInfo env (token.address tok)) (\<lambda>checkToken.
     andThen (case owner of Some k \<Rightarrow> resolve k | None \<Rightarrow> getWallet env) (\<lambda>ownerKey.
     andThen (onChain (\<lambda>w. case Account_new env w of (k, w') \<Rightarrow> (Inr k, w'))) (\<lambda>newAccount.
     andThen (onChain (makeNewAccountInstruction env newAccount)) (\<lambda>createAccountInstruction.
     andThen (makeTransaction env
                [createAccountInstruction,
                 InitAccount TOKEN_PROGRAM_ID (token.address tok) newAccount ownerKey]
                [newAccount]) (\<lambda>transaction.
     andThen (sendTransaction env transaction) (\<lambda>_.
     andThen (tokenAccountInfo env newAccount) (\<lambda>updatedInfo.
       case updatedInfo of
         None \<Rightarrow> reject (Error ''Unable to retrieve the created token account'')
       | Some created \<Rightarrow> resolve created))))))))"

definition approveInstruction ::
  "'w env \<Rightarrow> addr \<Rightarrow> pubkey \<Rightarrow> decimal \<Rightarrow> 'w state \<Rightarrow> (error + instruction) \<times> 'w state" where
  "approveInstruction env sourceAccount delegate amount =
     andThen (gets (\<lambda>st. tokenAccount.address (account st sourceAccount))) (\<lambda>source.
     andThen (getWallet env) (\<lambda>owner.
     andThen (settle (toU64 amount)) (\<lambda>amount'.
     settle (Token_createApproveInstruction
       \<lparr>approveProgramId = TOKEN_PROGRAM_ID, approveSource = source,
        approveDelegate = delegate, approveOwner = owner, approveAmount = amount'\<rparr>))))"

section \<open>The pool API\<close>

record identity =
  address :: pubkey

record ('s, 't) swapParametersOf =
  pool :: addr
  slippage :: 's
  fromAccount :: addr
  toAccount :: 't
  identity :: identity
  fromAmount :: decimal

type_synonym swapParameters = "(decimal option, addr option) swapParametersOf"

text \<open>\<^verbatim>\<open>Required<SwapParameters>\<close>: no field is optional.\<close>

type_synonym requiredSwapParameters = "(decimal, addr) swapParametersOf"

record depositParameters =
  pool :: addr
  slippage :: "decimal option"
  fromAAccount :: addr
  fromBAccount :: addr
  fromAAmount :: decimal
  poolTokenAccount :: "addr option"

definition newPool ::
  "pubkey \<Rightarrow> addr \<Rightarrow> addr \<Rightarrow> token \<Rightarrow> addr \<Rightarrow> pubkey \<Rightarrow> nat \<Rightarrow> rat \<Rightarrow> nat option \<Rightarrow> addr option
    \<Rightarrow> pool store \<Rightarrow> addr \<times> pool store" where
  "newPool a tA tB pt fee prog n ratio currentSlot prev =
     alloc \<lparr>lastUpdatedSlot = currentSlot, previous = prev, pool.address = a, tokenA = tA,
            tokenB = tB, poolToken = pt, feeAccount = fee, programId = prog, nonce = n,
            feeRatio = ratio\<rparr>"

definition getPool :: "'w env \<Rightarrow> pubkey \<Rightarrow> 'w state \<Rightarrow> (error + addr) \<times> 'w state" where
  "getPool env a =
     andThen (onChain (TokenSwap_loadTokenSwap env a)) (\<lambda>swapInfo.
     andThen (tokenAccountInfo env (swapTokenAccountA swapInfo)) (\<lambda>tokenAccountAInfo.
     andThen (tokenAccountInfo env (swapTokenAccountB swapInfo)) (\<lambda>tokenAccountBInfo.
     andThen (tokenAccountInfo env (swapInfoFeeAccount swapInfo)) (\<lambda>feeAccountInfo.
     andThen (tokenInfoUncached env (swapInfoPoolToken swapInfo)) (\<lambda>poolTokenInfo.
       case (tokenAccountAInfo, tokenAccountBInfo, feeAccountInfo) of
         (Some accountA, Some accountB, Some fee) \<Rightarrow>
           andThen (gets (\<lambda>st. lastUpdatedSlot (account st accountA))) (\<lambda>slot.
           inPools (newPool a accountA accountB poolTokenInfo fee (swapProgramId env)
             (swapNonce swapInfo)
             (of_nat (tradeFeeNumerator swapInfo) / of_nat (tradeFeeDenominator swapInfo))
             slot None))
       | _ \<Rightarrow> reject (Error ''Error collecting pool data''))))))"

definition updatePool :: "'w env \<Rightarrow> addr \<Rightarrow> 'w state \<Rightarrow> (error + addr) \<times> 'w state" where
  "updatePool env p =
     andThen (gets (\<lambda>st. pool.address (poolAt st p))) (\<lambda>a.
     andThen (getPool env a) (\<lambda>updatedPool.
     andThen (gets (\<lambda>st. case getPrevious (pools st) p of Some q \<Rightarrow> q | None \<Rightarrow> p)) (\<lambda>prev.
     andThen (inPools (\<lambda>s. ((), setPrevious updatedPool prev s))) (\<lambda>_.
     andThen (inPools (clone updatedPool)) (\<lambda>cloned.
     andThen (inPools (\<lambda>s. ((), addToHistory p cloned s))) (\<lambda>_.
     resolve updatedPool))))))"

definition tokenSwapAuthority :: "'w env \<Rightarrow> addr \<Rightarrow> 'w state \<Rightarrow> (error + pubkey) \<times> 'w state" where
  "tokenSwapAuthority env p st = onChain (Pool_tokenSwapAuthority env (poolAt st p)) st"

definition isReverseSwap :: "'w state \<Rightarrow> addr \<Rightarrow> addr \<Rightarrow> bool" where
  "isReverseSwap st p from = sameToken (account st (tokenB (poolAt st p))) (account st from)"

definition createSwapTransactionInstruction ::
  "'w env \<Rightarrow> requiredSwapParameters \<Rightarrow> 'w state \<Rightarrow> (error + instruction) \<times> 'w state" where
  "createSwapTransactionInstruction env parameters =
     andThen (gets (\<lambda>st. isReverseSwap st (swapParametersOf.pool parameters)
                (fromAccount parameters))) (\<lambda>isReverse.
     andThen (gets (\<lambda>st. if isReverse then tokenB (poolAt st (swapParametersOf.pool parameters))
                else tokenA (poolAt st (swapParametersOf.pool parameters)))) (\<lambda>poolIntoAccount.
     andThen (gets (\<lambda>st. if isReverse then tokenA (poolAt st (swapParametersOf.pool parameters))
                else tokenB (poolAt st (swapParametersOf.pool parameters)))) (\<lambda>poolFromAccount.
     andThen (\<lambda>st. settle (Pool_calculateAmountInOtherToken env (account st)
                (poolAt st (swapParametersOf.pool parameters))
                (mint (account st (fromAccount parameters)))
                (fromAmount parameters) True) st) (\<lambda>minimumToAmountWithoutSlippage.
     andThen (resolve (adjustForSlippage minimumToAmountWithoutSlippage Down
                (swapParametersOf.slippage parameters))) (\<lambda>minimumToAmountWithSlippage.
     andThen (tokenSwapAuthority env (swapParametersOf.pool parameters)) (\<lambda>authority.
     andThen (settle (toNumberU64 minimumToAmountWithSlippage)) (\<lambda>minimumAmountOut.
     andThen (gets (\<lambda>st.
       \<lparr>swapPoolAddress = pool.address (poolAt st (swapParametersOf.pool parameters)),
        swapAuthority = authority,
        swapFromAccount = tokenAccount.address (account st (fromAccount parameters)),
        swapPoolIntoAccount = tokenAccount.address (account st poolIntoAccount),
        swapPoolFromAccount = tokenAccount.address (account st poolFromAccount),
        swapToAccount = tokenAccount.address (account st (toAccount parameters)),
        swapPoolToken = token.address (poolToken (poolAt st (swapParametersOf.pool parameters))),
        swapFeeAccount = tokenAccount.address
          (account st (feeAccount (poolAt st (swapParametersOf.pool parameters)))),
        swapIdentity = identity.address (identity parameters),
        swapSwapProgramId = swapProgramId env,
        swapTokenProgramId = TOKEN_PROGRAM_ID,
        swapAmountIn = fromAmount parameters,
        swapMinimumAmountOut = minimumAmountOut\<rparr>)) (\<lambda>args.
     settle (TokenSwap_swapInstruction args)))))))))"

text \<open>
  The messages of the assertions end with the mints or the token they name, printed; the
  model keeps their fixed part.
\<close>

definition isSwapBetween :: "swapParameters \<Rightarrow> 'w state \<Rightarrow> tokenAccount \<Rightarrow> tokenAccount \<Rightarrow> bool" where
  "isSwapBetween parameters st tokenAccount1 tokenAccount2 =
     (sameToken (account st (fromAccount parameters)) tokenAccount1 \<and>
      (case toAccount parameters of
         None \<Rightarrow> True
       | Some to \<Rightarrow> sameToken (account st to) tokenAccount2))"

definition validateSwapParameters ::
  "swapParameters \<Rightarrow> 'w state \<Rightarrow> (error + unit) \<times> 'w state" where
  "validateSwapParameters parameters st =
     (let validAccounts =
            (isSwapBetween parameters st
               (account st (tokenA (poolAt st (swapParametersOf.pool parameters))))
               (account st (tokenB (poolAt st (swapParametersOf.pool parameters)))) \<or>
             isSwapBetween parameters st
               (account st (tokenB (poolAt st (swapParametersOf.pool parameters))))
               (account st (tokenA (poolAt st (swapParametersOf.pool parameters)))))
      in assertThat validAccounts ''Invalid accounts for fromAccount or toAccount.'' st)"

definition swap :: "'w env \<Rightarrow> swapParameters \<Rightarrow> 'w state \<Rightarrow> (error + string) \<times> 'w state" where
  "swap env parameters =
     andThen (validateSwapParameters parameters) (\<lambda>_.
     andThen (gets (\<lambda>st. sameToken (account st (fromAccount parameters))
                (account st (tokenB (poolAt st (swapParametersOf.pool parameters)))))) (\<lambda>isReverse.
     andThen (gets (\<lambda>st. if isReverse
                then mint (account st (tokenA (poolAt st (swapParametersOf.pool parameters))))
                else mint (account st (tokenB (poolAt st (swapParametersOf.pool parameters)))))) (\<lambda>toToken.
     andThen (case toAccount parameters of
                Some given \<Rightarrow> resolve given
              | None \<Rightarrow> createAccountForToken env toToken None) (\<lambda>toAccount'.
     andThen (tokenSwapAuthority env (swapParametersOf.pool parameters)) (\<lambda>delegate.
     andThen (approveInstruction env (fromAccount parameters) delegate
                (fromAmount parameters)) (\<lambda>approveInstr.
     andThen (createSwapTransactionInstruction env
                \<lparr>swapParametersOf.pool = swapParametersOf.pool parameters,
                 swapParametersOf.slippage = DEFAULT_SLIPPAGE env,
                 fromAccount = fromAccount parameters,
                 toAccount = toAccount',
                 identity = identity parameters,
                 fromAmount = fromAmount parameters\<rparr>) (\<lambda>swapInstr.
     andThen (makeTransaction env [approveInstr, swapInstr] []) (\<lambda>transaction.
     sendTransaction env transaction))))))))"

definition deposit :: "'w env \<Rightarrow> depositParameters \<Rightarrow> 'w state \<Rightarrow> (error + string) \<times> 'w state" where
  "deposit env parameters =
     andThen (gets (\<lambda>st. sameToken (account st (fromAAccount parameters))
                (account st (tokenA (poolAt st (depositParameters.pool parameters)))))) (\<lambda>okA.
     andThen (assertThat okA ''Invalid account for from token A'') (\<lambda>_.
     andThen (gets (\<lambda>st. sameToken (account st (fromBAccount parameters))
                (account st (tokenB (poolAt st (depositParameters.pool parameters)))))) (\<lambda>okB.
     andThen (assertThat okB ''Invalid account for from token B'') (\<lambda>_.
     andThen (gets (\<lambda>st. case poolTokenAccount parameters of
                  None \<Rightarrow> True
                | Some given \<Rightarrow> Token_equals (mint (account st given))
                    (poolToken (poolAt st (depositParameters.pool parameters))))) (\<lambda>okPool.
     andThen (assertThat okPool ''Invalid pool token account'') (\<lambda>_.
     andThen (tokenSwapAuthority env (depositParameters.pool parameters)) (\<lambda>authority.
     andThen (\<lambda>st. settle (Pool_getPoolTokenValueOfTokenAAmount env (account st)
                (poolAt st (depositParameters.pool parameters))
                (fromAAmount parameters)) st) (\<lambda>poolTokenAmount'.
     andThen (\<lambda>st. settle (Pool_calculateAmountsWithSlippage env (account st)
                (poolAt st (depositParameters.pool parameters))
                poolTokenAmount' Up (depositParameters.slippage parameters)) st) (\<lambda>maximumAmounts.
     andThen (gets (\<lambda>st. min (tokenAAmount maximumAmounts)
                (balance (account st (fromAAccount parameters))))) (\<lambda>maxTokenAAmount.
     andThen (gets (\<lambda>st. min (tokenBAmount maximumAmounts)
                (balance (account st (fromBAccount parameters))))) (\<lambda>maxTokenBAmount.
     andThen (case poolTokenAccount parameters of
                Some given \<Rightarrow> resolve given
              | None \<Rightarrow> (\<lambda>st. createAccountForToken env
                  (poolToken (poolAt st (depositParameters.pool parameters))) None st)) (\<lambda>poolTokenAccount'.
     andThen (approveInstruction env (fromAAccount parameters) authority
                maxTokenAAmount) (\<lambda>fromAApproveInstruction.
     andThen (approveInstruction env (fromBAccount parameters) authority
                maxTokenBAmount) (\<lambda>fromBApproveInstruction.
     andThen (settle (toNumberU64 (poolTokenAmount maximumAmounts))) (\<lambda>poolTokenAmount''.
     andThen (settle (toNumberU64 maxTokenAAmount)) (\<lambda>maximumTokenA.
     andThen (settle (toNumberU64 maxTokenBAmount)) (\<lambda>maximumTokenB.
     andThen (gets (\<lambda>st.
       \<lparr>depositPoolAddress = pool.address (poolAt st (depositParameters.pool parameters)),
        depositAuthority = authority,
        depositFromAAccount = tokenAccount.address (account st (fromAAccount parameters)),
        depositFromBAccount = tokenAccount.address (account st (fromBAccount parameters)),
        depositPoolTokenA = tokenAccount.address
          (account st (tokenA (poolAt st (depositParameters.pool parameters)))),
        depositPoolTokenB = tokenAccount.address
          (account st (tokenB (poolAt st (depositParameters.pool parameters)))),
        depositPoolToken =
          token.address (poolToken (poolAt st (depositParameters.pool parameters))),
        depositPoolTokenAccount = tokenAccount.address (account st poolTokenAccount'),
        depositSwapProgramId = swapProgramId env,
        depositTokenProgramId = TOKEN_PROGRAM_ID,
        depositPoolTokenAmount = poolTokenAmount'',
        depositMaximumTokenA = maximumTokenA,
        depositMaximumTokenB = maximumTokenB\<rparr>)) (\<lambda>args.
     andThen (settle (TokenSwap_depositInstruction args)) (\<lambda>depositInstruction.
     andThen (makeTransaction env
                [fromAApproveInstruction, fromBApproveInstruction, depositInstruction]
                []) (\<lambda>transaction.
     sendTransaction env transaction))))))))))))))))))))"

section \<open>Notions used in the statements and proofs\<close>

text \<open>
  \<open>path st p as q\<close>: from the reference \<open>p\<close>, the \<^verbatim>\<open>previous\<close> references lead through the
  objects \<open>as\<close>, in this order, to the reference \<open>q\<close>.
\<close>

primrec path :: "'a onChainEntity_scheme store \<Rightarrow> addr option \<Rightarrow> addr list \<Rightarrow> addr option \<Rightarrow> bool" where
  "path st p [] q = (p = q)"
| "path st p (a # as) q = (p = Some a \<and> path st (getPrevious st a) as q)"

text \<open>An asynchronous function that leaves a component \<open>g\<close> of the state as it is.\<close>

definition keeps :: "('s \<Rightarrow> 'c) \<Rightarrow> ('s \<Rightarrow> (error + 'a) \<times> 's) \<Rightarrow> bool" where
  "keeps g m = (\<forall>s. g (snd (m s)) = g s)"

text \<open>
  An asynchronous function that leaves the token account objects that exist as they are:
  it may build new ones.
\<close>

definition keepsObjects :: "('w state \<Rightarrow> (error + 'a) \<times> 'w state) \<Rightarrow> bool" where
  "keepsObjects m =
     (\<forall>s. nextAddr (accounts s) \<le> nextAddr (accounts (snd (m s))) \<and>
          (\<forall>x<nextAddr (accounts s). objs (accounts (snd (m s))) x = objs (accounts s) x))"

text \<open>
  The serialized form of a chain of snapshots, and a chain all of whose objects lie
  below an address.
\<close>

fun serializeChain :: "codec \<Rightarrow> snapshot list \<Rightarrow> serializableTokenAccount option" where
  "serializeChain c [] = None"
| "serializeChain c ((m, a, b, slot) # xs) =
     Some (SerializableTokenAccount (Token_serialize c m) (toBase58 c a) (decimalToString c b)
       slot (serializeChain c xs))"

fun chainBelow :: "addr \<Rightarrow> tokenAccount store \<Rightarrow> addr option \<Rightarrow> snapshot list \<Rightarrow> bool" where
  "chainBelow n st p [] = (p = None)"
| "chainBelow n st p (x # xs) =
     (case p of
        None \<Rightarrow> False
      | Some a \<Rightarrow>
          a < n \<and> x = snapshotOf (objs st a) \<and> chainBelow n st (previous (objs st a)) xs)"

named_theorems keeps_intros

section \<open>Concrete inputs\<close>

definition exampleToken :: token where
  "exampleToken =
     \<lparr>token.address = PublicKey 1, token.decimals = 2, token.supply' = 64,
      token.mintAuthority = None, token.name = None, token.symbol = None\<rparr>"

definition exampleHolder :: tokenAccount where
  "exampleHolder =
     \<lparr>lastUpdatedSlot = Some 7, previous = None, mint = exampleToken,
      tokenAccount.address = PublicKey 10, balance = 1\<rparr>"

text \<open>
  A chain with three mints (1, 2 and the pool token 3), five token accounts (10 and 11
  of mint 1, 12 and 14 of mint 2, 13 of mint 3), an account that no program parses (20)
  and a pool (100) over the accounts 11 and 12. The node parses the token accounts and
  the accounts of the mints; the parsed information of a mint has neither \<^verbatim>\<open>mint\<close> nor
  \<^verbatim>\<open>tokenAmount\<close>. The state of the chain is the slot.
\<close>

definition exampleMintOf :: "pubkey \<Rightarrow> nat option" where
  "exampleMintOf a =
     (if a = PublicKey 10 \<or> a = PublicKey 11 then Some 1
      else if a = PublicKey 12 \<or> a = PublicKey 14 then Some 2
      else if a = PublicKey 13 then Some 3
      else None)"

definition exampleTokenOf :: "nat \<Rightarrow> token" where
  "exampleTokenOf m =
     \<lparr>token.address = PublicKey m, token.decimals = 2, token.supply' = 1000,
      token.mintAuthority = None, token.name = None, token.symbol = None\<rparr>"

definition exampleEnv :: "nat env" where
  "exampleEnv =
     \<lparr>connection_getParsedAccountInfo = (\<lambda>a w.
        (Inr \<lparr>contextSlot = w,
              accountValue =
                (case exampleMintOf a of
                   Some m \<Rightarrow>
                     Some \<lparr>accountData = ParsedAccountData ''spl-token''
                              (Some \<lparr>infoMint = Some (PublicKey m),
                                     infoTokenAmount = Some (1000 + w)\<rparr>),
                           accountOwner = TOKEN_PROGRAM_ID\<rparr>
                 | None \<Rightarrow>
                     if a = PublicKey 1 \<or> a = PublicKey 2 \<or> a = PublicKey 3
                     then Some \<lparr>accountData = ParsedAccountData ''spl-token''
                                   (Some \<lparr>infoMint = None, infoTokenAmount = None\<rparr>),
                                accountOwner = TOKEN_PROGRAM_ID\<rparr>
                     else if a = PublicKey 20
                     then Some \<lparr>accountData = Buffer [1, 2, 3], accountOwner = PublicKey 0\<rparr>
                     else None)\<rparr>,
         Suc w)),
      connection_getRecentBlockhash = (\<lambda>w. (Inr ''blockhash'', w)),
      SPLToken_getMintInfo = (\<lambda>m w.
        if m = PublicKey 1 \<or> m = PublicKey 2 \<or> m = PublicKey 3
        then (Inr \<lparr>mintDecimals = 2, mintSupply = 1000, mintMintAuthority = None\<rparr>, w)
        else (Inl (RpcError ''Failed to find mint account''), w)),
      PublicKey_ofUndefined = Inr (PublicKey 0),
      cache_tokenInfo = (\<lambda>m w.
        if m = PublicKey 1 then (Inr (exampleTokenOf 1), w)
        else if m = PublicKey 2 then (Inr (exampleTokenOf 2), w)
        else if m = PublicKey 3 then (Inr (exampleTokenOf 3), w)
        else (Inl (RpcError ''Failed to find mint account''), w)),
      tokenConfigForCluster = None,
      TokenSwap_loadTokenSwap = (\<lambda>a w.
        if a = PublicKey 100
        then (Inr \<lparr>swapTokenAccountA = PublicKey 11, swapTokenAccountB = PublicKey 12,
                    swapInfoFeeAccount = PublicKey 13, swapInfoPoolToken = PublicKey 3,
                    swapNonce = 255, tradeFeeNumerator = 3, tradeFeeDenominator = 1000\<rparr>, w)
        else (Inl (RpcError ''Invalid account owner''), w)),
      swapProgramId = PublicKey 99,
      wallet_pubkey = (\<lambda>w. Some (PublicKey 50)),
      wallet_signAndSubmit = (\<lambda>tx w. (Inr ''signature'', Suc w)),
      Account_new = (\<lambda>w. (PublicKey 14, w)),
      makeNewAccountInstruction = (\<lambda>k w. (Inr (OtherInstruction ''createAccount''), w)),
      Pool_tokenSwapAuthority = (\<lambda>p w. (Inr (PublicKey 60), w)),
      Pool_calculateAmountInOtherToken = (\<lambda>deref p tok amount bidirectional. Inr (amount * 2)),
      Pool_getPoolTokenValueOfTokenAAmount = getPoolTokenValueOfTokenAAmount,
      Pool_calculateAmountsWithSlippage = calculateAmountsWithSlippage 5,
      DEFAULT_SLIPPAGE = 5\<rparr>"

definition exampleAccount :: "nat \<Rightarrow> nat \<Rightarrow> decimal \<Rightarrow> tokenAccount" where
  "exampleAccount key m b =
     \<lparr>lastUpdatedSlot = Some 4, previous = None, mint = exampleTokenOf m,
      tokenAccount.address = PublicKey key, balance = b\<rparr>"

definition examplePool :: pool where
  "examplePool =
     \<lparr>lastUpdatedSlot = Some 4, previous = None, pool.address = PublicKey 100, tokenA = 0,
      tokenB = 1, poolToken = exampleTokenOf 3, feeAccount = 2, programId = PublicKey 99,
      nonce = 255, feeRatio = 3 / 1000\<rparr>"

text \<open>
  The objects of the client: the three accounts of the pool (0, 1, 2), the user's
  accounts of mint 1 (3) and of mint 2 (4), and the pool (0).
\<close>

definition exampleState :: "nat state" where
  "exampleState =
     \<lparr>chain = 5,
      accounts =
        \<lparr>objs = (\<lambda>_. exampleAccount 0 0 0)
           (0 := exampleAccount 11 1 1000, 1 := exampleAccount 12 2 2000,
            2 := exampleAccount 13 3 0, 3 := exampleAccount 10 1 50,
            4 := exampleAccount 14 2 70),
         nextAddr = 5\<rparr>,
      pools = \<lparr>objs = (\<lambda>_. examplePool), nextAddr = 1\<rparr>,
      sent = []\<rparr>"

text \<open>A store of plain entities: an entity (0) with an older snapshot (1), and two more (2, 3).\<close>

definition exampleEntities :: "onChainEntity store" where
  "exampleEntities =
     \<lparr>objs = (\<lambda>_. \<lparr>lastUpdatedSlot = None, previous = None\<rparr>)
        (0 := \<lparr>lastUpdatedSlot = Some 2, previous = Some 1\<rparr>,
         1 := \<lparr>lastUpdatedSlot = Some 1, previous = None\<rparr>,
         2 := \<lparr>lastUpdatedSlot = Some 3, previous = None\<rparr>,
         3 := \<lparr>lastUpdatedSlot = Some 4, previous = None\<rparr>),
      nextAddr = 4\<rparr>"

text \<open>
  A swap of 10 units from the user's account of mint 1 to the user's account of mint 2,
  with a slippage of 1 percent asked for; the same with the fee account of mint 3 as the
  source, which the pool does not trade; a deposit of 40 units of token A with a slippage
  of 5 percent, from the user's accounts, which hold 50 and 70; and the same deposit
  with an amount of -100.
\<close>

definition exampleSwap :: swapParameters where
  "exampleSwap =
     \<lparr>swapParametersOf.pool = 0, swapParametersOf.slippage = Some 1, fromAccount = 3,
      toAccount = Some 4, identity = \<lparr>identity.address = PublicKey 70\<rparr>, fromAmount = 10\<rparr>"

definition exampleBadSwap :: swapParameters where
  "exampleBadSwap = exampleSwap\<lparr>fromAccount := 2\<rparr>"

definition exampleDeposit :: depositParameters where
  "exampleDeposit =
     \<lparr>depositParameters.pool = 0, depositParameters.slippage = Some 5, fromAAccount = 3,
      fromBAccount = 4, fromAAmount = 40, poolTokenAccount = Some 2\<rparr>"

definition exampleNegativeDeposit :: depositParameters where
  "exampleNegativeDeposit = exampleDeposit\<lparr>fromAAmount := - 100\<rparr>"

text \<open>
  A codec for the examples: a key is printed as that many strokes, a decimal as the
  strokes of its numerator (doubled, and one more when it is negative), a slash and the
  strokes of its denominator.
\<close>

definition exampleCodec :: codec where
  "exampleCodec =
     \<lparr>toBase58 = (\<lambda>k. case k of PublicKey n \<Rightarrow> replicate n (CHR ''1'')),
      newPublicKey = (\<lambda>s. PublicKey (length s)),
      decimalToString = (\<lambda>d. case quotient_of d of
         (a, b) \<Rightarrow> replicate (if 0 \<le> a then 2 * nat a else 2 * nat (- a) + 1) (CHR ''1'')
                   @ CHR ''/'' # replicate (nat b) (CHR ''1'')),
      newDecimal = (\<lambda>s.
         let n = length (takeWhile (\<lambda>ch. ch \<noteq> CHR ''/'') s);
             b = length (drop (Suc n) s)
         in (if even n then of_nat (n div 2) else - of_nat (n div 2)) / of_nat b)\<rparr>"

text \<open>A token account (1) whose \<^verbatim>\<open>previous\<close> is an older snapshot (0).\<close>

definition exampleHistory :: "tokenAccount store" where
  "exampleHistory =
     \<lparr>objs = (\<lambda>_. exampleHolder)
        (1 := exampleHolder\<lparr>lastUpdatedSlot := Some 9, previous := Some 0, balance := 3\<rparr>),
      nextAddr = 2\<rparr>"

section \<open>Decimal rounding\<close>

lemma exponent10_lower: "0 < q \<Longrightarrow> 10 powi exponent10 q \<le> q"
proof (induction q rule: exponent10.induct)
  case (1 q)
  show ?case
  proof (cases "10 \<le> q")
    case True
    then have "10 powi exponent10 (q / 10) \<le> q / 10" using 1 by simp
    moreover have "exponent10 q = exponent10 (q / 10) + 1"
      using True 1(3) by (subst exponent10.simps) simp
    ultimately show ?thesis by (simp add: power_int_add)
  next
    case False
    show ?thesis
    proof (cases "q < 1")
      case True
      then have "10 powi exponent10 (q * 10) \<le> q * 10" using 1 False by simp
      moreover have "exponent10 q = exponent10 (q * 10) - 1"
        using True False 1(3) by (subst exponent10.simps) simp
      ultimately show ?thesis by (simp add: power_int_diff)
    next
      case nsmall: False
      have "exponent10 q = 0"
        using nsmall False 1(3) by (subst exponent10.simps) simp
      then show ?thesis using nsmall by simp
    qed
  qed
qed

lemma exponent10_upper: "0 < q \<Longrightarrow> q < 10 powi (exponent10 q + 1)"
proof (induction q rule: exponent10.induct)
  case (1 q)
  show ?case
  proof (cases "10 \<le> q")
    case True
    then have "q / 10 < 10 powi (exponent10 (q / 10) + 1)" using 1 by simp
    moreover have "exponent10 q = exponent10 (q / 10) + 1"
      using True 1(3) by (subst exponent10.simps) simp
    ultimately show ?thesis by (simp add: power_int_add)
  next
    case False
    show ?thesis
    proof (cases "q < 1")
      case True
      then have "q * 10 < 10 powi (exponent10 (q * 10) + 1)" using 1 False by simp
      moreover have "exponent10 q = exponent10 (q * 10) - 1"
        using True False 1(3) by (subst exponent10.simps) simp
      ultimately show ?thesis by (simp add: power_int_add)
    next
      case nsmall: False
      have "exponent10 q = 0"
        using nsmall False 1(3) by (subst exponent10.simps) simp
      then show ?thesis using False by simp
    qed
  qed
qed

lemma roundHalfUp_of_int [simp]: "roundHalfUp (of_int n) = n"
proof -
  have "\<lfloor>rat_of_int n + 1 / 2\<rfloor> = n" by (simp add: floor_eq_iff)
  moreover have "\<lfloor>- rat_of_int n + 1 / 2\<rfloor> = - n"
    by (simp add: floor_eq_iff)
  ultimately show ?thesis by (simp add: roundHalfUp_def)
qed

text \<open>
  A number with at most \<open>sd\<close> significant digits is not changed by the rounding to \<open>sd\<close>
  significant digits.
\<close>

lemma toSignificantDigits_exact:
  assumes n: "q * 10 ^ k = of_int n" and small: "\<bar>n\<bar> < 10 ^ sd"
  shows "toSignificantDigits sd q = q"
proof (cases "q = 0")
  case True
  then show ?thesis by (simp add: toSignificantDigits_def)
next
  case False
  define e where "e = exponent10 \<bar>q\<bar>"
  define s where "s = int sd - 1 - e"
  have pos: "0 < \<bar>q\<bar>" using False by simp
  have lo: "10 powi e \<le> \<bar>q\<bar>"
    unfolding e_def using pos by (rule exponent10_lower)
  have "\<bar>q\<bar> * 10 ^ k = of_int \<bar>n\<bar>"
    using n by (simp add: abs_mult flip: n)
  also have "\<dots> < 10 ^ sd"
    using small by (metis of_int_less_iff of_int_numeral of_int_power)
  finally have "\<bar>q\<bar> < 10 ^ sd / 10 ^ k"
    by (simp add: field_simps)
  also have "\<dots> = 10 powi (int sd - int k)"
    by (simp add: power_int_diff)
  finally have "(10::rat) powi e < 10 powi (int sd - int k)"
    using lo by linarith
  then have "e < int sd - int k"
    using power_int_increasing [of "int sd - int k" e "10::rat"] by force
  then have sk: "int k \<le> s" by (simp add: s_def)
  have "q * 10 powi s = q * 10 ^ k * 10 powi (s - int k)"
    by (simp add: power_int_diff)
  also have "\<dots> = of_int n * 10 ^ nat (s - int k)"
    using sk n by (simp add: power_int_def)
  also have "\<dots> = of_int (n * 10 ^ nat (s - int k))"
    by simp
  finally have "q * 10 powi s = of_int (n * 10 ^ nat (s - int k))" .
  then have "of_int (roundHalfUp (q * 10 powi s)) = q * 10 powi s"
    by (simp only: roundHalfUp_of_int)
  then have "of_int (roundHalfUp (q * 10 powi s)) * 10 powi (- s) = q"
    by (simp add: power_int_minus)
  then show ?thesis
    using False by (simp add: toSignificantDigits_def Let_def s_def e_def)
qed

lemma dec_div_pow10_exact:
  assumes "\<bar>n\<bar> < 10 ^ PRECISION"
  shows "dec_div (of_int n) (10 ^ d) = of_int n / 10 ^ d"
  unfolding dec_div_def
  by (rule toSignificantDigits_exact [where k = d and n = n]) (use assms in simp_all)

lemma dec_mul_pow10_exact:
  assumes "\<bar>n\<bar> < 10 ^ PRECISION"
  shows "dec_mul (of_int n / 10 ^ d) (10 ^ d) = of_int n"
proof -
  have "toSignificantDigits PRECISION (rat_of_int n) = of_int n"
    by (rule toSignificantDigits_exact [where k = 0 and n = n]) (use assms in simp_all)
  then show ?thesis by (simp add: dec_mul_def)
qed

text \<open>
  The working precision is felt from 21 significant digits on: a division by one loses
  the last digit.
\<close>

lemma dec_div_loses_digit_21: "dec_div (10 ^ 20 + 1) 1 = 10 ^ 20"
  by code_simp

section \<open>Amount conversion\<close>

text \<open>
  C2 (amended). For every token with at most 22 decimals (up to there \<^verbatim>\<open>10 ** decimals\<close>
  is the power of ten) and every amount \<open>x\<close> in minor denomination that is a whole number
  of at most 20 digits (below \<open>10^20\<close> in absolute value; every 64-bit balance is one),
  converting \<open>x\<close> to major denomination and back to minor denomination gives \<open>x\<close>:
  \<^verbatim>\<open>majorAmountToMinor(minorAmountToMajor(x, T), T) == x\<close>.
\<close>

theorem amount_round_trip:
  assumes decimals: "token.decimals T \<le> 22"
    and whole: "x \<in> \<int>" and digits: "\<bar>x\<bar> < 10 ^ PRECISION"
  shows "\<exists>major. minorAmountToMajor x T = Some major \<and> majorAmountToMinor major T = Some x"
proof -
  from whole obtain n where x: "x = of_int n" by (auto elim: Ints_cases)
  have n: "\<bar>n\<bar> < 10 ^ PRECISION"
    using digits unfolding x by (metis of_int_abs of_int_less_iff of_int_numeral of_int_power)
  have "minorAmountToMajor x T = Some (of_int n / 10 ^ token.decimals T)"
    using decimals
    by (simp add: minorAmountToMajor_def tenToThe_def toDecimal_def x dec_div_pow10_exact [OF n]
        toDecimalPlaces_def)
  moreover have "majorAmountToMinor (of_int n / 10 ^ token.decimals T) T = Some x"
    using decimals
    by (simp add: majorAmountToMinor_def tenToThe_def dec_mul_pow10_exact [OF n] dec_round_def x)
  ultimately show ?thesis by simp
qed

theorem amount_round_trip_witness:
  "token.decimals exampleToken \<le> 22 \<and> (12345 :: rat) \<in> \<int> \<and>
   \<bar>12345 :: rat\<bar> < 10 ^ PRECISION \<and>
   minorAmountToMajor 12345 exampleToken = Some (2469 / 20) \<and>
   majorAmountToMinor (2469 / 20) exampleToken = Some 12345"
proof -
  have d: "token.decimals exampleToken \<le> 22" by (simp add: exampleToken_def)
  have w: "(12345 :: rat) \<in> \<int>" and p: "\<bar>12345 :: rat\<bar> < 10 ^ PRECISION"
    by (simp_all add: PRECISION_def)
  have major: "minorAmountToMajor 12345 exampleToken = Some (2469 / 20)"
    by code_simp
  from amount_round_trip [OF d w p] obtain m where
    m1: "minorAmountToMajor 12345 exampleToken = Some m" and
    m2: "majorAmountToMinor m exampleToken = Some 12345"
    by blast
  from m1 major have "m = 2469 / 20"
    by (metis option.inject)
  with m2 have "majorAmountToMinor (2469 / 20) exampleToken = Some 12345"
    by (simp only:)
  then show ?thesis using d w p major by blast
qed

text \<open>
  The claim as it is stated fails for an amount with decimal places: one hundredth is
  expressible exactly in the two decimal places of the token, its major form 0.0001 is
  rounded to 0.00, and the way back gives 0. It also fails for a whole amount of 21
  digits, whose last digit the division loses, here for a token with no decimal places.
\<close>

theorem amount_round_trip_counterexample:
  "token.decimals exampleToken \<le> 22 \<and>
   (1 / 100 :: rat) * 10 ^ token.decimals exampleToken \<in> \<int> \<and>
   minorAmountToMajor (1 / 100) exampleToken = Some 0 \<and>
   majorAmountToMinor 0 exampleToken = Some 0 \<and>
   (0 :: rat) \<noteq> 1 / 100 \<and>
   (10 ^ 20 + 1 :: rat) * 10 ^ token.decimals (exampleToken\<lparr>token.decimals := 0\<rparr>) \<in> \<int> \<and>
   minorAmountToMajor (10 ^ 20 + 1) (exampleToken\<lparr>token.decimals := 0\<rparr>) = Some (10 ^ 20) \<and>
   majorAmountToMinor (10 ^ 20) (exampleToken\<lparr>token.decimals := 0\<rparr>) = Some (10 ^ 20) \<and>
   (10 ^ 20 :: rat) \<noteq> 10 ^ 20 + 1"
proof -
  have "(1 / 100 :: rat) * 10 ^ token.decimals exampleToken = 1"
    "token.decimals exampleToken \<le> 22"
    by (simp_all add: exampleToken_def)
  moreover have "minorAmountToMajor (1 / 100) exampleToken = Some 0"
    by code_simp
  moreover have "majorAmountToMinor 0 exampleToken = Some 0"
    by code_simp
  moreover have "(10 ^ 20 + 1 :: rat) \<in> \<int>"
    by simp
  moreover have
    "minorAmountToMajor (10 ^ 20 + 1) (exampleToken\<lparr>token.decimals := 0\<rparr>) = Some (10 ^ 20)"
    by code_simp
  moreover have
    "majorAmountToMinor (10 ^ 20) (exampleToken\<lparr>token.decimals := 0\<rparr>) = Some (10 ^ 20)"
    by code_simp
  ultimately show ?thesis by simp
qed

section \<open>Share of the total supply\<close>

text \<open>
  C6. \<^verbatim>\<open>proportionOfTotalSupply()\<close> is documented to give the share of the supply with 5
  decimal places of precision. With balance 1 and supply 64 the code returns 1/64 =
  0.015625, which has six decimal places; rounded to five it would be 0.01563. The guard
  for a supply of zero is right.
\<close>

theorem proportionOfTotalSupply_not_rounded:
  "proportionOfTotalSupply exampleHolder = 1 / 64 \<and>
   toDecimalPlaces 5 (balance exampleHolder / token.supply' (mint exampleHolder)) = 1563 / 100000 \<and>
   proportionOfTotalSupply exampleHolder \<noteq>
     toDecimalPlaces 5 (balance exampleHolder / token.supply' (mint exampleHolder)) \<and>
   proportionOfTotalSupply (exampleHolder\<lparr>mint := exampleToken\<lparr>token.supply' := 0\<rparr>\<rparr>) = 0"
proof -
  have a: "proportionOfTotalSupply exampleHolder = 1 / 64"
    by code_simp
  have b: "toDecimalPlaces 5 (balance exampleHolder / token.supply' (mint exampleHolder)) = 1563 / 100000"
    by code_simp
  have c: "proportionOfTotalSupply (exampleHolder\<lparr>mint := exampleToken\<lparr>token.supply' := 0\<rparr>\<rparr>) = 0"
    by (simp add: proportionOfTotalSupply_def)
  show ?thesis unfolding a b using c by simp
qed

section \<open>Slippage\<close>

text \<open>
  C9 (amended). For every amount that is not negative and every slippage percentage
  \<open>s \<ge> 0\<close>, \<^verbatim>\<open>adjustForSlippage(amount, "up", s)\<close> equals \<open>amount * (1 + s/100)\<close>,
  \<^verbatim>\<open>adjustForSlippage(amount, "down", s)\<close> equals \<open>amount * (1 - s/100)\<close>, and
  \<^verbatim>\<open>adjustForSlippage(amount, "up", s) \<ge> amount \<ge> adjustForSlippage(amount, "down", s)\<close>.
\<close>

theorem adjustForSlippage_bounds:
  assumes "0 \<le> amount" and "0 \<le> s"
  shows "adjustForSlippage amount Up s = amount * (1 + s / 100) \<and>
         adjustForSlippage amount Down s = amount * (1 - s / 100) \<and>
         amount \<le> adjustForSlippage amount Up s \<and>
         adjustForSlippage amount Down s \<le> amount"
proof -
  have "0 \<le> amount * (s / 100)"
    using assms by simp
  then show ?thesis
    by (simp add: adjustForSlippage_def algebra_simps)
qed

theorem adjustForSlippage_bounds_witness:
  "(0::rat) \<le> 200 \<and> (0::rat) \<le> 5 \<and>
   adjustForSlippage 200 Up 5 = 210 \<and> adjustForSlippage 200 Down 5 = 190 \<and>
   (200::rat) \<le> adjustForSlippage 200 Up 5 \<and> adjustForSlippage 200 Down 5 \<le> 200"
  using adjustForSlippage_bounds [of 200 5] by simp

text \<open>
  The order of the claim is reversed for a negative amount: 5 percent up from -100 is
  -105, which is below -100, and 5 percent down is -95, which is above.
\<close>

theorem adjustForSlippage_bounds_counterexample:
  "(0::rat) \<le> 5 \<and> adjustForSlippage (- 100) Up 5 = - 105 \<and>
   \<not> (- 100 \<le> adjustForSlippage (- 100) Up 5) \<and>
   \<not> (adjustForSlippage (- 100) Down 5 \<le> - 100)"
  by (simp add: adjustForSlippage_def)

section \<open>Big numbers\<close>

lemma printsAsWholeNumber_of_int: "printsAsWholeNumber (of_int n) \<longleftrightarrow> \<bar>n\<bar> < 10 ^ 21"
proof -
  have "\<bar>rat_of_int n\<bar> < 10 ^ 21 \<longleftrightarrow> \<bar>n\<bar> < 10 ^ 21"
    by (metis of_int_abs of_int_less_iff of_int_numeral of_int_power)
  then show ?thesis by (simp add: printsAsWholeNumber_def)
qed

lemma printsAsWholeNumber_numeral [simp]:
  "printsAsWholeNumber (numeral k) \<longleftrightarrow> (numeral k :: int) < 10 ^ 21"
  using printsAsWholeNumber_of_int [of "numeral k"] by simp

lemma printsAsWholeNumber_neg_numeral [simp]:
  "printsAsWholeNumber (- numeral k) \<longleftrightarrow> (numeral k :: int) < 10 ^ 21"
  using printsAsWholeNumber_of_int [of "- numeral k"] by simp

lemma u64_toBuffer_Inr:
  "u64_toBuffer amount = Inr n \<longleftrightarrow> \<bar>u64BN amount\<bar> < 2 ^ 64 \<and> n = nat \<bar>u64BN amount\<bar>"
  by (auto simp: u64_toBuffer_def)

lemma Numberu64_toBuffer_Inr:
  "Numberu64_toBuffer amount = Inr n \<longleftrightarrow>
   \<bar>numberu64BN amount\<bar> < 2 ^ 64 \<and> n = nat \<bar>numberu64BN amount\<bar>"
  by (auto simp: Numberu64_toBuffer_def)

lemma toU64_Inr:
  "toU64 number = Inr amount \<longleftrightarrow>
   of_int (u64BN amount) = number \<and> \<bar>number\<bar> < 10 ^ 21"
  by (cases amount) (auto simp: toU64_def printsAsWholeNumber_def)

lemma toNumberU64_Inr:
  "toNumberU64 number = Inr amount \<longleftrightarrow>
   of_int (numberu64BN amount) = number \<and> \<bar>number\<bar> < 10 ^ 21"
  by (cases amount) (auto simp: toNumberU64_def printsAsWholeNumber_def)

section \<open>The history chain\<close>

lemma getPrevious_addToHistory_this [simp]:
  "getPrevious (addToHistory this new st) this = Some new"
  by (simp add: addToHistory_def getPrevious_def Let_def)

lemma getPrevious_addToHistory_new [simp]:
  "new \<noteq> this \<Longrightarrow> getPrevious (addToHistory this new st) new = getPrevious st this"
  by (simp add: addToHistory_def getPrevious_def Let_def)

lemma getPrevious_addToHistory_other [simp]:
  "a \<noteq> this \<Longrightarrow> a \<noteq> new \<Longrightarrow> getPrevious (addToHistory this new st) a = getPrevious st a"
  by (simp add: addToHistory_def getPrevious_def Let_def)

lemma objs_addToHistory_other:
  "a \<noteq> this \<Longrightarrow> a \<noteq> new \<Longrightarrow> objs (addToHistory this new st) a = objs st a"
  by (simp add: addToHistory_def Let_def)

lemma nextAddr_addToHistory [simp]: "nextAddr (addToHistory this new st) = nextAddr st"
  by (simp add: addToHistory_def Let_def)

lemma path_walk: "path st p as q \<Longrightarrow> walk st (length as) p = q"
  by (induction as arbitrary: p) auto

lemma path_cong:
  "(\<And>a. a \<in> set as \<Longrightarrow> getPrevious st' a = getPrevious st a) \<Longrightarrow>
   path st' p as q = path st p as q"
  by (induction as arbitrary: p) auto

lemma path_append:
  "path st p (as @ bs) q = (\<exists>r. path st p as r \<and> path st r bs q)"
  by (induction as arbitrary: p) auto

text \<open>
  After the snapshots \<open>ns\<close> were added one by one, the chain from the entity runs through
  the snapshots, the last one added first, and then into the chain the entity had.
\<close>

lemma path_after_addToHistory:
  assumes "distinct ns" and "this \<notin> set ns"
  shows "path (foldl (\<lambda>s n. addToHistory this n s) st ns) (Some this) (this # rev ns)
           (getPrevious st this)"
  using assms
proof (induction ns rule: rev_induct)
  case Nil
  then show ?case by simp
next
  case (snoc n ns)
  define st0 where "st0 = foldl (\<lambda>s n. addToHistory this n s) st ns"
  have n: "n \<noteq> this" "n \<notin> set ns" and ns: "distinct ns" "this \<notin> set ns"
    using snoc.prems by auto
  have "path st0 (Some this) (this # rev ns) (getPrevious st this)"
    unfolding st0_def using snoc.IH ns by simp
  then have old: "path st0 (getPrevious st0 this) (rev ns) (getPrevious st this)"
    by simp
  have "path (addToHistory this n st0) (getPrevious st0 this) (rev ns) (getPrevious st this) =
        path st0 (getPrevious st0 this) (rev ns) (getPrevious st this)"
  proof (rule path_cong)
    fix a assume "a \<in> set (rev ns)"
    then have "a \<noteq> this" "a \<noteq> n" using n ns by auto
    then show "getPrevious (addToHistory this n st0) a = getPrevious st0 a" by simp
  qed
  with old have "path (addToHistory this n st0) (getPrevious st0 this) (rev ns) (getPrevious st this)"
    by simp
  then show ?case
    using n by (simp add: st0_def)
qed

lemma walk_None [simp]: "walk st k None = None"
  by (cases k) simp_all

lemma walk_closed:
  assumes closed: "\<And>a b. a \<in> S \<Longrightarrow> getPrevious st a = Some b \<Longrightarrow> b \<in> S"
  shows "a \<in> S \<Longrightarrow> walk st k (Some a) = Some b \<Longrightarrow> b \<in> S"
proof (induction k arbitrary: a)
  case 0
  then show ?case by simp
next
  case (Suc k)
  then show ?case
    by (cases "getPrevious st a") (auto dest: closed)
qed

section \<open>Sequencing and frames\<close>

lemma andThen_Inr:
  assumes "andThen m f s = (Inr y, s')"
  obtains x s1 where "m s = (Inr x, s1)" and "f x s1 = (Inr y, s')"
proof (cases "m s")
  case (Pair r s1)
  then show ?thesis
    using assms that by (cases r) (simp_all add: andThen_def)
qed

lemma andThen_Inl [simp]: "m s = (Inl e, s1) \<Longrightarrow> andThen m f s = (Inl e, s1)"
  by (simp add: andThen_def)

lemma andThen_step [simp]: "m s = (Inr x, s1) \<Longrightarrow> andThen m f s = f x s1"
  by (simp add: andThen_def)

lemma andThen_settle_Inl [simp]: "andThen (settle (Inl e)) f = reject e"
  by (rule ext) (simp add: andThen_def settle_def reject_def)

lemma resolve_eq [simp]: "resolve x s = (r, s') \<longleftrightarrow> r = Inr x \<and> s' = s"
  by (auto simp: resolve_def)

lemma reject_eq [simp]: "reject e s = (r, s') \<longleftrightarrow> r = Inl e \<and> s' = s"
  by (auto simp: reject_def)

lemma gets_eq [simp]: "gets f s = (r, s') \<longleftrightarrow> r = Inr (f s) \<and> s' = s"
  by (auto simp: gets_def)

lemma settle_eq [simp]: "settle x s = (r, s') \<longleftrightarrow> x = r \<and> s' = s"
  by (auto simp: settle_def)

lemma assertThat_Inr [simp]: "assertThat b msg s = (Inr u, s') \<longleftrightarrow> b \<and> s' = s"
  by (auto simp: assertThat_def)

lemma keepsD: "keeps g m \<Longrightarrow> m s = (r, s') \<Longrightarrow> g s' = g s"
  unfolding keeps_def by (metis snd_conv)

lemma keeps_resolve [keeps_intros]: "keeps g (resolve x)"
  by (simp add: keeps_def resolve_def)

lemma keeps_reject [keeps_intros]: "keeps g (reject e)"
  by (simp add: keeps_def reject_def)

lemma keeps_gets [keeps_intros]: "keeps g (gets f)"
  by (simp add: keeps_def gets_def)

lemma keeps_settle [keeps_intros]: "keeps g (settle r)"
  by (simp add: keeps_def settle_def)

lemma keeps_settle_at [keeps_intros]: "keeps g (\<lambda>st. settle (r st) st)"
  by (simp add: keeps_def settle_def)

lemma keeps_assertThat [keeps_intros]: "keeps g (assertThat b msg)"
  by (simp add: keeps_def assertThat_def resolve_def reject_def)

lemma keeps_andThen [keeps_intros]:
  assumes "keeps g m" and "\<And>x. keeps g (f x)"
  shows "keeps g (andThen m f)"
  unfolding keeps_def
proof
  fix s
  show "g (snd (andThen m f s)) = g s"
  proof (cases "m s")
    case (Pair r s1)
    have s1: "g s1 = g s" using assms(1) Pair by (rule keepsD)
    show ?thesis
    proof (cases r)
      case (Inl e)
      then show ?thesis using Pair s1 by (simp add: andThen_def)
    next
      case (Inr x)
      have "g (snd (f x s1)) = g s1" using assms(2) [of x] by (simp add: keeps_def)
      then show ?thesis using Pair Inr s1 by (simp add: andThen_def)
    qed
  qed
qed

lemma keeps_case_option [keeps_intros]:
  "keeps g m \<Longrightarrow> (\<And>x. keeps g (f x)) \<Longrightarrow> keeps g (case opt of None \<Rightarrow> m | Some x \<Rightarrow> f x)"
  by (cases opt) simp_all

lemma keeps_onChain_accounts [keeps_intros]: "keeps accounts (onChain c)"
  by (simp add: keeps_def onChain_def split: prod.split)

lemma keeps_onChain_pools [keeps_intros]: "keeps pools (onChain c)"
  by (simp add: keeps_def onChain_def split: prod.split)

lemma keeps_onChain_sent [keeps_intros]: "keeps sent (onChain c)"
  by (simp add: keeps_def onChain_def split: prod.split)

lemma keeps_inAccounts_pools [keeps_intros]: "keeps pools (inAccounts f)"
  by (simp add: keeps_def inAccounts_def split: prod.split)

lemma keeps_inAccounts_sent [keeps_intros]: "keeps sent (inAccounts f)"
  by (simp add: keeps_def inAccounts_def split: prod.split)

lemma keeps_inPools_accounts [keeps_intros]: "keeps accounts (inPools f)"
  by (simp add: keeps_def inPools_def split: prod.split)

lemma keeps_inPools_sent [keeps_intros]: "keeps sent (inPools f)"
  by (simp add: keeps_def inPools_def split: prod.split)

lemma keeps_getWallet [keeps_intros]: "keeps g (getWallet env)"
  by (simp add: keeps_def getWallet_def resolve_def reject_def split: option.split)

lemma keeps_connected [keeps_intros]: "keeps g (connected env)"
  by (simp add: keeps_def connected_def resolve_def reject_def split: option.split)

lemma keeps_tokenInfo [keeps_intros]:
  "keeps accounts (tokenInfo env m)" "keeps pools (tokenInfo env m)" "keeps sent (tokenInfo env m)"
  by (simp_all add: tokenInfo_def keeps_intros)

lemma keeps_tokenInfoUncached [keeps_intros]:
  "keeps accounts (tokenInfoUncached env m)" "keeps pools (tokenInfoUncached env m)"
  "keeps sent (tokenInfoUncached env m)"
  by (auto simp: tokenInfoUncached_def intro!: keeps_intros)

lemma keeps_tokenAccountInfo [keeps_intros]:
  "keeps pools (tokenAccountInfo env a)" "keeps sent (tokenAccountInfo env a)"
  by (auto simp: tokenAccountInfo_def intro!: keeps_intros)

lemma keeps_tokenSwapAuthority [keeps_intros]:
  "keeps accounts (tokenSwapAuthority env p)" "keeps pools (tokenSwapAuthority env p)"
  "keeps sent (tokenSwapAuthority env p)"
  by (simp_all add: keeps_def tokenSwapAuthority_def onChain_def split: prod.split)

lemma keeps_makeTransaction [keeps_intros]:
  "keeps accounts (makeTransaction env is sg)" "keeps pools (makeTransaction env is sg)"
  "keeps sent (makeTransaction env is sg)"
  by (auto simp: makeTransaction_def intro!: keeps_intros)

lemma keeps_sendTransaction [keeps_intros]:
  "keeps accounts (sendTransaction env tx)" "keeps pools (sendTransaction env tx)"
  by (auto simp: sendTransaction_def keeps_def resolve_def intro!: keeps_intros [unfolded keeps_def, rule_format])

lemma keeps_approveInstruction [keeps_intros]:
  "keeps accounts (approveInstruction env src d amt)" "keeps pools (approveInstruction env src d amt)"
  "keeps sent (approveInstruction env src d amt)"
  by (auto simp: approveInstruction_def intro!: keeps_intros)

lemma keeps_createAccountForToken [keeps_intros]:
  "keeps pools (createAccountForToken env tok owner)"
  by (auto simp: createAccountForToken_def intro!: keeps_intros)

lemma keepsObjectsD:
  assumes "keepsObjects m" and "m s = (r, s')"
  shows "nextAddr (accounts s) \<le> nextAddr (accounts s')"
    and "x < nextAddr (accounts s) \<Longrightarrow> objs (accounts s') x = objs (accounts s) x"
  using assms unfolding keepsObjects_def by (metis snd_conv)+

lemma keepsObjects_keeps: "keeps accounts m \<Longrightarrow> keepsObjects m"
  by (simp add: keeps_def keepsObjects_def)

lemma keepsObjects_andThen:
  assumes "keepsObjects m" and "\<And>x. keepsObjects (f x)"
  shows "keepsObjects (andThen m f)"
  unfolding keepsObjects_def
proof (intro allI conjI impI)
  fix s
  obtain r s1 where m: "m s = (r, s1)" by (cases "m s")
  note first = keepsObjectsD [OF assms(1) m]
  show "nextAddr (accounts s) \<le> nextAddr (accounts (snd (andThen m f s)))"
  proof (cases r)
    case (Inl e)
    then show ?thesis using m first(1) by (simp add: andThen_def)
  next
    case (Inr y)
    obtain r2 s2 where f: "f y s1 = (r2, s2)" by (cases "f y s1")
    from keepsObjectsD(1) [OF assms(2) f] first(1) show ?thesis
      using m Inr f by (simp add: andThen_def)
  qed
  fix x
  assume x: "x < nextAddr (accounts s)"
  show "objs (accounts (snd (andThen m f s))) x = objs (accounts s) x"
  proof (cases r)
    case (Inl e)
    then show ?thesis using m first(2) [OF x] by (simp add: andThen_def)
  next
    case (Inr y)
    obtain r2 s2 where f: "f y s1 = (r2, s2)" by (cases "f y s1")
    have "x < nextAddr (accounts s1)" using x first(1) by simp
    from keepsObjectsD(2) [OF assms(2) f this] first(2) [OF x] show ?thesis
      using m Inr f by (simp add: andThen_def)
  qed
qed

lemma keepsObjects_case_option:
  "keepsObjects m \<Longrightarrow> (\<And>x. keepsObjects (f x)) \<Longrightarrow>
   keepsObjects (case opt of None \<Rightarrow> m | Some x \<Rightarrow> f x)"
  by (cases opt) simp_all

lemma keepsObjects_newTokenAccount:
  "keepsObjects (inAccounts (newTokenAccount m a b slot prev))"
  by (simp add: keepsObjects_def inAccounts_def newTokenAccount_def alloc_def)

lemma keepsObjects_tokenAccountInfo: "keepsObjects (tokenAccountInfo env a)"
  unfolding tokenAccountInfo_def
  by (intro keepsObjects_andThen keepsObjects_case_option keepsObjects_newTokenAccount
      keepsObjects_keeps keeps_intros)

lemma keepsObjects_createAccountForToken: "keepsObjects (createAccountForToken env tok owner)"
  unfolding createAccountForToken_def
  by (intro keepsObjects_andThen keepsObjects_case_option keepsObjects_tokenAccountInfo
      keepsObjects_keeps keeps_intros)

section \<open>Fetching snapshots\<close>

lemma alloc_eq:
  "alloc obj st = (a, st') \<longleftrightarrow>
   a = nextAddr st \<and> st' = \<lparr>objs = (objs st)(nextAddr st := obj), nextAddr = Suc (nextAddr st)\<rparr>"
  by (auto simp: alloc_def)

lemma inAccounts_eq:
  "inAccounts f st = (r, st') \<longleftrightarrow> r = Inr (fst (f (accounts st))) \<and> st' = st\<lparr>accounts := snd (f (accounts st))\<rparr>"
  by (auto simp: inAccounts_def split: prod.splits)

lemma inPools_eq:
  "inPools f st = (r, st') \<longleftrightarrow> r = Inr (fst (f (pools st))) \<and> st' = st\<lparr>pools := snd (f (pools st))\<rparr>"
  by (auto simp: inPools_def split: prod.splits)

lemma onChain_eq:
  "onChain call st = (r, st') \<longleftrightarrow> r = fst (call (chain st)) \<and> st' = st\<lparr>chain := snd (call (chain st))\<rparr>"
  by (auto simp: onChain_def split: prod.splits)

lemma amountOf_Inr [simp]: "amountOf tokenAmount = Inr amount \<longleftrightarrow> tokenAmount = Some amount"
  by (cases tokenAmount) (auto simp: amountOf_def)

text \<open>
  A token account that was fetched is a new object with no \<^verbatim>\<open>previous\<close>; its balance
  and its slot are those of the answer of the node.
\<close>

lemma tokenAccountInfo_Some:
  assumes "tokenAccountInfo env a st = (Inr (Some u), st1)"
  shows "u = nextAddr (accounts st)"
    and "nextAddr (accounts st1) = Suc u"
    and "previous (objs (accounts st1) u) = None"
    and "tokenAccount.address (objs (accounts st1) u) = a"
    and "x \<noteq> u \<Longrightarrow> objs (accounts st1) x = objs (accounts st) x"
    and "\<exists>res parsedInfo amount.
           fst (connection_getParsedAccountInfo env a (chain st)) = Inr res \<and>
           extractParsedTokenAccountInfo (accountValue res) = Some parsedInfo \<and>
           infoTokenAmount parsedInfo = Some amount \<and>
           balance (objs (accounts st1) u) = of_nat amount \<and>
           lastUpdatedSlot (objs (accounts st1) u) = Some (contextSlot res)"
proof -
  from assms obtain res s1 where
    rpc: "onChain (connection_getParsedAccountInfo env a) st = (Inr res, s1)" and
    rest: "(case extractParsedTokenAccountInfo (accountValue res) of
             None \<Rightarrow> resolve None
           | Some parsedInfo \<Rightarrow>
               andThen (settle (newPublicKeyOf env (infoMint parsedInfo))) (\<lambda>mintKey.
               andThen (tokenInfo env mintKey) (\<lambda>mintTokenInfo.
               andThen (settle (amountOf (infoTokenAmount parsedInfo))) (\<lambda>amount.
               andThen (inAccounts (newTokenAccount mintTokenInfo a
                          (toDecimal (of_nat amount))
                          (Some (contextSlot res)) None)) (\<lambda>created.
               resolve (Some created)))))) s1 = (Inr (Some u), st1)"
    unfolding tokenAccountInfo_def by (rule andThen_Inr)
  have a1: "accounts s1 = accounts st"
    using keeps_onChain_accounts rpc by (rule keepsD)
  have answer: "fst (connection_getParsedAccountInfo env a (chain st)) = Inr res"
    using rpc unfolding onChain_eq by simp
  from rest obtain parsedInfo where
    ex: "extractParsedTokenAccountInfo (accountValue res) = Some parsedInfo"
    by (cases "extractParsedTokenAccountInfo (accountValue res)") auto
  from rest have
    rest': "andThen (settle (newPublicKeyOf env (infoMint parsedInfo))) (\<lambda>mintKey.
               andThen (tokenInfo env mintKey) (\<lambda>mintTokenInfo.
               andThen (settle (amountOf (infoTokenAmount parsedInfo))) (\<lambda>amount.
               andThen (inAccounts (newTokenAccount mintTokenInfo a
                          (toDecimal (of_nat amount))
                          (Some (contextSlot res)) None)) (\<lambda>created.
               resolve (Some created))))) s1 = (Inr (Some u), st1)"
    by (simp add: ex)
  from rest' obtain mintKey s1' where
    key: "settle (newPublicKeyOf env (infoMint parsedInfo)) s1 = (Inr mintKey, s1')" and
    rest1: "andThen (tokenInfo env mintKey) (\<lambda>mintTokenInfo.
               andThen (settle (amountOf (infoTokenAmount parsedInfo))) (\<lambda>amount.
               andThen (inAccounts (newTokenAccount mintTokenInfo a
                          (toDecimal (of_nat amount))
                          (Some (contextSlot res)) None)) (\<lambda>created.
               resolve (Some created)))) s1' = (Inr (Some u), st1)"
    by (rule andThen_Inr)
  from key have s1': "s1' = s1" by simp
  from rest1 obtain tok s2 where
    ti: "tokenInfo env mintKey s1 = (Inr tok, s2)" and
    rest2: "andThen (settle (amountOf (infoTokenAmount parsedInfo))) (\<lambda>amount.
               andThen (inAccounts (newTokenAccount tok a
                          (toDecimal (of_nat amount))
                          (Some (contextSlot res)) None)) (\<lambda>created.
               resolve (Some created))) s2 = (Inr (Some u), st1)"
    unfolding s1' by (rule andThen_Inr)
  have a2: "accounts s2 = accounts st"
    using keeps_tokenInfo(1) ti a1 by (metis keepsD)
  from rest2 obtain amount s2' where
    am: "settle (amountOf (infoTokenAmount parsedInfo)) s2 = (Inr amount, s2')" and
    rest3: "andThen (inAccounts (newTokenAccount tok a
                          (toDecimal (of_nat amount))
                          (Some (contextSlot res)) None)) (\<lambda>created.
               resolve (Some created)) s2' = (Inr (Some u), st1)"
    by (rule andThen_Inr)
  from am have s2': "s2' = s2" and amount: "infoTokenAmount parsedInfo = Some amount"
    by simp_all
  from rest3 obtain created s3 where
    al: "inAccounts (newTokenAccount tok a (toDecimal (of_nat amount))
           (Some (contextSlot res)) None) s2 = (Inr created, s3)" and
    fin: "resolve (Some created) s3 = (Inr (Some u), st1)"
    unfolding s2' by (rule andThen_Inr)
  from fin have u: "created = u" and s3: "s3 = st1" by auto
  from al have acc: "accounts st1 = snd (newTokenAccount tok a (toDecimal (of_nat amount))
           (Some (contextSlot res)) None (accounts st))"
    and uu: "u = fst (newTokenAccount tok a (toDecimal (of_nat amount))
           (Some (contextSlot res)) None (accounts st))"
    unfolding inAccounts_eq u s3 a2 by auto
  show here: "u = nextAddr (accounts st)" using uu by (simp add: newTokenAccount_def alloc_def)
  then show "nextAddr (accounts st1) = Suc u" using acc by (simp add: newTokenAccount_def alloc_def)
  show "previous (objs (accounts st1) u) = None"
    using acc here by (simp add: newTokenAccount_def alloc_def)
  show "tokenAccount.address (objs (accounts st1) u) = a"
    using acc here by (simp add: newTokenAccount_def alloc_def)
  show "x \<noteq> u \<Longrightarrow> objs (accounts st1) x = objs (accounts st) x"
    using acc here by (simp add: newTokenAccount_def alloc_def)
  have "balance (objs (accounts st1) u) = of_nat amount"
    "lastUpdatedSlot (objs (accounts st1) u) = Some (contextSlot res)"
    using acc here by (simp_all add: newTokenAccount_def alloc_def toDecimal_def)
  then show "\<exists>res parsedInfo amount.
           fst (connection_getParsedAccountInfo env a (chain st)) = Inr res \<and>
           extractParsedTokenAccountInfo (accountValue res) = Some parsedInfo \<and>
           infoTokenAmount parsedInfo = Some amount \<and>
           balance (objs (accounts st1) u) = of_nat amount \<and>
           lastUpdatedSlot (objs (accounts st1) u) = Some (contextSlot res)"
    using answer ex amount by blast
qed

lemma updateTokenAccountInfo_Some:
  assumes "updateTokenAccountInfo env t st = (Inr (Some u), st')"
  shows "u = nextAddr (accounts st)"
    and "getPrevious (accounts st') u = Some t"
    and "x \<noteq> u \<Longrightarrow> objs (accounts st') x = objs (accounts st) x"
    and "\<exists>s1. tokenAccountInfo env (tokenAccount.address (account st t)) st = (Inr (Some u), s1) \<and>
           st' = s1\<lparr>accounts := setPrevious u t (accounts s1)\<rparr>"
proof -
  from assms obtain a s0 where
    g: "gets (\<lambda>st. tokenAccount.address (account st t)) st = (Inr a, s0)" and
    r1: "andThen (tokenAccountInfo env a) (\<lambda>updatedTokenAccount.
       case updatedTokenAccount of
         None \<Rightarrow> resolve None
       | Some updated \<Rightarrow>
           andThen (inAccounts (\<lambda>s. ((), setPrevious updated t s))) (\<lambda>_.
           resolve (Some updated))) s0 = (Inr (Some u), st')"
    unfolding updateTokenAccountInfo_def by (rule andThen_Inr)
  from g have s0: "s0 = st" and a: "a = tokenAccount.address (account st t)" by simp_all
  from r1 obtain res s1 where
    ti: "tokenAccountInfo env a st = (Inr res, s1)" and
    r2: "(case res of
         None \<Rightarrow> resolve None
       | Some updated \<Rightarrow>
           andThen (inAccounts (\<lambda>s. ((), setPrevious updated t s))) (\<lambda>_.
           resolve (Some updated))) s1 = (Inr (Some u), st')"
    unfolding s0 by (rule andThen_Inr)
  from r2 obtain updated where res: "res = Some updated"
    by (cases res) auto
  from r2 have
    r3: "andThen (inAccounts (\<lambda>s. ((), setPrevious updated t s))) (\<lambda>_.
           resolve (Some updated)) s1 = (Inr (Some u), st')"
    by (simp add: res)
  from r3 obtain unit' s2 where
    sp: "inAccounts (\<lambda>s. ((), setPrevious updated t s)) s1 = (Inr unit', s2)" and
    fin: "resolve (Some updated) s2 = (Inr (Some u), st')"
    by (rule andThen_Inr)
  from fin have u: "updated = u" and s2: "s2 = st'" by auto
  from sp have whole: "st' = s1\<lparr>accounts := setPrevious u t (accounts s1)\<rparr>"
    unfolding inAccounts_eq u s2 by auto
  then have acc: "accounts st' = setPrevious u t (accounts s1)"
    by simp
  note info = tokenAccountInfo_Some [OF ti [unfolded res u]]
  show "u = nextAddr (accounts st)" by (rule info(1))
  show "getPrevious (accounts st') u = Some t"
    using acc by (simp add: setPrevious_def getPrevious_def)
  show "x \<noteq> u \<Longrightarrow> objs (accounts st') x = objs (accounts st) x"
    using acc info(5) by (simp add: setPrevious_def)
  show "\<exists>s1. tokenAccountInfo env (tokenAccount.address (account st t)) st = (Inr (Some u), s1) \<and>
           st' = s1\<lparr>accounts := setPrevious u t (accounts s1)\<rparr>"
    using ti whole unfolding res u a by blast
qed

text \<open>A pool that was fetched is a new object with no \<^verbatim>\<open>previous\<close>.\<close>

lemma getPool_Inr:
  assumes "getPool env a st = (Inr u, st1)"
  shows "u = nextAddr (pools st)"
    and "nextAddr (pools st1) = Suc u"
    and "previous (objs (pools st1) u) = None"
    and "x \<noteq> u \<Longrightarrow> objs (pools st1) x = objs (pools st) x"
proof -
  from assms obtain swapInfo s1 where
    c1: "onChain (TokenSwap_loadTokenSwap env a) st = (Inr swapInfo, s1)" and
    r1: "andThen (tokenAccountInfo env (swapTokenAccountA swapInfo)) (\<lambda>tokenAccountAInfo.
     andThen (tokenAccountInfo env (swapTokenAccountB swapInfo)) (\<lambda>tokenAccountBInfo.
     andThen (tokenAccountInfo env (swapInfoFeeAccount swapInfo)) (\<lambda>feeAccountInfo.
     andThen (tokenInfoUncached env (swapInfoPoolToken swapInfo)) (\<lambda>poolTokenInfo.
       case (tokenAccountAInfo, tokenAccountBInfo, feeAccountInfo) of
         (Some accountA, Some accountB, Some fee) \<Rightarrow>
           andThen (gets (\<lambda>st. lastUpdatedSlot (account st accountA))) (\<lambda>slot.
           inPools (newPool a accountA accountB poolTokenInfo fee (swapProgramId env)
             (swapNonce swapInfo)
             (of_nat (tradeFeeNumerator swapInfo) / of_nat (tradeFeeDenominator swapInfo))
             slot None))
       | _ \<Rightarrow> reject (Error ''Error collecting pool data''))))) s1 = (Inr u, st1)"
    unfolding getPool_def by (rule andThen_Inr)
  have p1: "pools s1 = pools st" using keeps_onChain_pools c1 by (rule keepsD)
  from r1 obtain ra s2 where
    c2: "tokenAccountInfo env (swapTokenAccountA swapInfo) s1 = (Inr ra, s2)" and
    r2: "andThen (tokenAccountInfo env (swapTokenAccountB swapInfo)) (\<lambda>tokenAccountBInfo.
     andThen (tokenAccountInfo env (swapInfoFeeAccount swapInfo)) (\<lambda>feeAccountInfo.
     andThen (tokenInfoUncached env (swapInfoPoolToken swapInfo)) (\<lambda>poolTokenInfo.
       case (ra, tokenAccountBInfo, feeAccountInfo) of
         (Some accountA, Some accountB, Some fee) \<Rightarrow>
           andThen (gets (\<lambda>st. lastUpdatedSlot (account st accountA))) (\<lambda>slot.
           inPools (newPool a accountA accountB poolTokenInfo fee (swapProgramId env)
             (swapNonce swapInfo)
             (of_nat (tradeFeeNumerator swapInfo) / of_nat (tradeFeeDenominator swapInfo))
             slot None))
       | _ \<Rightarrow> reject (Error ''Error collecting pool data'')))) s2 = (Inr u, st1)"
    by (rule andThen_Inr)
  have p2: "pools s2 = pools st" using keeps_tokenAccountInfo(1) c2 p1 by (metis keepsD)
  from r2 obtain rb s3 where
    c3: "tokenAccountInfo env (swapTokenAccountB swapInfo) s2 = (Inr rb, s3)" and
    r3: "andThen (tokenAccountInfo env (swapInfoFeeAccount swapInfo)) (\<lambda>feeAccountInfo.
     andThen (tokenInfoUncached env (swapInfoPoolToken swapInfo)) (\<lambda>poolTokenInfo.
       case (ra, rb, feeAccountInfo) of
         (Some accountA, Some accountB, Some fee) \<Rightarrow>
           andThen (gets (\<lambda>st. lastUpdatedSlot (account st accountA))) (\<lambda>slot.
           inPools (newPool a accountA accountB poolTokenInfo fee (swapProgramId env)
             (swapNonce swapInfo)
             (of_nat (tradeFeeNumerator swapInfo) / of_nat (tradeFeeDenominator swapInfo))
             slot None))
       | _ \<Rightarrow> reject (Error ''Error collecting pool data''))) s3 = (Inr u, st1)"
    by (rule andThen_Inr)
  have p3: "pools s3 = pools st" using keeps_tokenAccountInfo(1) c3 p2 by (metis keepsD)
  from r3 obtain rf s4 where
    c4: "tokenAccountInfo env (swapInfoFeeAccount swapInfo) s3 = (Inr rf, s4)" and
    r4: "andThen (tokenInfoUncached env (swapInfoPoolToken swapInfo)) (\<lambda>poolTokenInfo.
       case (ra, rb, rf) of
         (Some accountA, Some accountB, Some fee) \<Rightarrow>
           andThen (gets (\<lambda>st. lastUpdatedSlot (account st accountA))) (\<lambda>slot.
           inPools (newPool a accountA accountB poolTokenInfo fee (swapProgramId env)
             (swapNonce swapInfo)
             (of_nat (tradeFeeNumerator swapInfo) / of_nat (tradeFeeDenominator swapInfo))
             slot None))
       | _ \<Rightarrow> reject (Error ''Error collecting pool data'')) s4 = (Inr u, st1)"
    by (rule andThen_Inr)
  have p4: "pools s4 = pools st" using keeps_tokenAccountInfo(1) c4 p3 by (metis keepsD)
  from r4 obtain pt s5 where
    c5: "tokenInfoUncached env (swapInfoPoolToken swapInfo) s4 = (Inr pt, s5)" and
    r5: "(case (ra, rb, rf) of
         (Some accountA, Some accountB, Some fee) \<Rightarrow>
           andThen (gets (\<lambda>st. lastUpdatedSlot (account st accountA))) (\<lambda>slot.
           inPools (newPool a accountA accountB pt fee (swapProgramId env)
             (swapNonce swapInfo)
             (of_nat (tradeFeeNumerator swapInfo) / of_nat (tradeFeeDenominator swapInfo))
             slot None))
       | _ \<Rightarrow> reject (Error ''Error collecting pool data'')) s5 = (Inr u, st1)"
    by (rule andThen_Inr)
  have p5: "pools s5 = pools st" using keeps_tokenInfoUncached(2) c5 p4 by (metis keepsD)
  from r5 obtain accountA accountB fee where
    all: "ra = Some accountA" "rb = Some accountB" "rf = Some fee"
    by (cases ra; cases rb; cases rf) auto
  from r5 have
    r6: "andThen (gets (\<lambda>st. lastUpdatedSlot (account st accountA))) (\<lambda>slot.
           inPools (newPool a accountA accountB pt fee (swapProgramId env)
             (swapNonce swapInfo)
             (of_nat (tradeFeeNumerator swapInfo) / of_nat (tradeFeeDenominator swapInfo))
             slot None)) s5 = (Inr u, st1)"
    by (simp add: all)
  from r6 obtain slot s6 where
    c6: "gets (\<lambda>st. lastUpdatedSlot (account st accountA)) s5 = (Inr slot, s6)" and
    r7: "inPools (newPool a accountA accountB pt fee (swapProgramId env)
             (swapNonce swapInfo)
             (of_nat (tradeFeeNumerator swapInfo) / of_nat (tradeFeeDenominator swapInfo))
             slot None) s6 = (Inr u, st1)"
    by (rule andThen_Inr)
  from c6 have s6: "s6 = s5" by simp
  from r7 have u: "u = nextAddr (pools st)" and
    ps: "pools st1 = snd (newPool a accountA accountB pt fee (swapProgramId env)
             (swapNonce swapInfo)
             (of_nat (tradeFeeNumerator swapInfo) / of_nat (tradeFeeDenominator swapInfo))
             slot None (pools st))"
    unfolding inPools_eq s6 p5 by (auto simp: newPool_def alloc_def)
  show "u = nextAddr (pools st)" by (rule u)
  show "nextAddr (pools st1) = Suc u" using ps u by (simp add: newPool_def alloc_def)
  show "previous (objs (pools st1) u) = None" using ps u by (simp add: newPool_def alloc_def)
  show "x \<noteq> u \<Longrightarrow> objs (pools st1) x = objs (pools st) x"
    using ps u by (simp add: newPool_def alloc_def)
qed

lemmas api_defs =
  andThen_def gets_def resolve_def reject_def settle_def assertThat_def onChain_def
  inAccounts_def inPools_def account_def poolAt_def alloc_def newTokenAccount_def newPool_def
  getWallet_def connected_def makeTransaction_def sendTransaction_def tokenInfo_def
  tokenInfoUncached_def getConfigForToken_def extractParsedTokenAccountInfo_def
  tokenAccountInfo_def newPublicKeyOf_def amountOf_def tokenSwapAuthority_def
  approveInstruction_def toU64_def toNumberU64_def u64_toBuffer_def Numberu64_ofNumber_def
  Numberu64_toBuffer_def Token_createApproveInstruction_def TokenSwap_swapInstruction_def
  TokenSwap_depositInstruction_def getPoolTokenValueOfTokenAAmount_def
  calculateAmountsWithSlippage_def adjustForSlippage_def
  setPrevious_def getPrevious_def addToHistory_def clone_def

lemmas example_defs =
  exampleEnv_def exampleState_def exampleAccount_def examplePool_def exampleMintOf_def
  exampleTokenOf_def

section \<open>Updating a tracked entity\<close>

lemma updatePool_Inr:
  assumes run: "updatePool env p st = (Inr u, st')" and p: "p < nextAddr (pools st)"
  shows "u = nextAddr (pools st)"
    and "nextAddr (pools st') = Suc (Suc u)"
    and "objs (pools st') p = (objs (pools st) p)\<lparr>previous := Some (Suc u)\<rparr>"
    and "objs (pools st') (Suc u) = (objs (pools st') u)\<lparr>previous := getPrevious (pools st) p\<rparr>"
    and "getPrevious (pools st') u = Some (case getPrevious (pools st) p of Some q \<Rightarrow> q | None \<Rightarrow> p)"
    and "x \<noteq> p \<Longrightarrow> x \<noteq> u \<Longrightarrow> x \<noteq> Suc u \<Longrightarrow> objs (pools st') x = objs (pools st) x"
    and "\<exists>s1. getPool env (pool.address (poolAt st p)) st = (Inr u, s1) \<and>
           objs (pools st') u =
             (objs (pools s1) u)
               \<lparr>previous := Some (case getPrevious (pools st) p of Some q \<Rightarrow> q | None \<Rightarrow> p)\<rparr> \<and>
           accounts st' = accounts s1 \<and> chain st' = chain s1"
proof -
  from run obtain a s0 where
    g: "gets (\<lambda>st. pool.address (poolAt st p)) st = (Inr a, s0)" and
    r1: "andThen (getPool env a) (\<lambda>updatedPool.
     andThen (gets (\<lambda>st. case getPrevious (pools st) p of Some q \<Rightarrow> q | None \<Rightarrow> p)) (\<lambda>prev.
     andThen (inPools (\<lambda>s. ((), setPrevious updatedPool prev s))) (\<lambda>_.
     andThen (inPools (clone updatedPool)) (\<lambda>cloned.
     andThen (inPools (\<lambda>s. ((), addToHistory p cloned s))) (\<lambda>_.
     resolve updatedPool))))) s0 = (Inr u, st')"
    unfolding updatePool_def by (rule andThen_Inr)
  from g have s0: "s0 = st" and a: "a = pool.address (poolAt st p)" by simp_all
  from r1 obtain v s1 where
    gp: "getPool env a st = (Inr v, s1)" and
    r2: "andThen (gets (\<lambda>st. case getPrevious (pools st) p of Some q \<Rightarrow> q | None \<Rightarrow> p)) (\<lambda>prev.
     andThen (inPools (\<lambda>s. ((), setPrevious v prev s))) (\<lambda>_.
     andThen (inPools (clone v)) (\<lambda>cloned.
     andThen (inPools (\<lambda>s. ((), addToHistory p cloned s))) (\<lambda>_.
     resolve v)))) s1 = (Inr u, st')"
    unfolding s0 by (rule andThen_Inr)
  note fetched = getPool_Inr [OF gp]
  have vp: "v \<noteq> p" using fetched(1) p by simp
  from r2 obtain prev s2 where
    g2: "gets (\<lambda>st. case getPrevious (pools st) p of Some q \<Rightarrow> q | None \<Rightarrow> p) s1 = (Inr prev, s2)" and
    r3: "andThen (inPools (\<lambda>s. ((), setPrevious v prev s))) (\<lambda>_.
     andThen (inPools (clone v)) (\<lambda>cloned.
     andThen (inPools (\<lambda>s. ((), addToHistory p cloned s))) (\<lambda>_.
     resolve v))) s2 = (Inr u, st')"
    by (rule andThen_Inr)
  from g2 have s2: "s2 = s1" and
    prev: "prev = (case getPrevious (pools s1) p of Some q \<Rightarrow> q | None \<Rightarrow> p)" by auto
  have same: "getPrevious (pools s1) p = getPrevious (pools st) p"
    using fetched(4) [of p] vp by (simp add: getPrevious_def)
  from r3 obtain u1 s3 where
    sp: "inPools (\<lambda>s. ((), setPrevious v prev s)) s1 = (Inr u1, s3)" and
    r4: "andThen (inPools (clone v)) (\<lambda>cloned.
     andThen (inPools (\<lambda>s. ((), addToHistory p cloned s))) (\<lambda>_.
     resolve v)) s3 = (Inr u, st')"
    unfolding s2 by (rule andThen_Inr)
  from sp have p3: "pools s3 = setPrevious v prev (pools s1)"
    and o3: "accounts s3 = accounts s1" "chain s3 = chain s1"
    unfolding inPools_eq by simp_all
  from r4 obtain c s4 where
    cl: "inPools (clone v) s3 = (Inr c, s4)" and
    r5: "andThen (inPools (\<lambda>s. ((), addToHistory p c s))) (\<lambda>_. resolve v) s4 = (Inr u, st')"
    by (rule andThen_Inr)
  from cl have c: "c = Suc v" and p4: "pools s4 = snd (clone v (pools s3))"
    and o4: "accounts s4 = accounts s3" "chain s4 = chain s3"
    unfolding inPools_eq using fetched(2) p3
    by (simp_all add: clone_def alloc_def setPrevious_def)
  from r5 obtain u2 s5 where
    ah: "inPools (\<lambda>s. ((), addToHistory p c s)) s4 = (Inr u2, s5)" and
    fin: "resolve v s5 = (Inr u, st')"
    by (rule andThen_Inr)
  from fin have u: "v = u" and s5: "s5 = st'" by auto
  from ah have p5: "pools st' = addToHistory p c (pools s4)"
    and o5: "accounts st' = accounts s4" "chain st' = chain s4"
    unfolding inPools_eq s5 by simp_all
  have pc: "p \<noteq> c" using c fetched(1) p by simp
  show "u = nextAddr (pools st)" using fetched(1) u by simp
  show "nextAddr (pools st') = Suc (Suc u)"
    using p5 p4 p3 fetched(2) u by (simp add: clone_def alloc_def setPrevious_def)
  show "objs (pools st') p = (objs (pools st) p)\<lparr>previous := Some (Suc u)\<rparr>"
    using p5 p4 p3 fetched(2) fetched(4) [of p] u c vp pc
    by (simp add: clone_def alloc_def setPrevious_def addToHistory_def Let_def)
  show "objs (pools st') (Suc u) = (objs (pools st') u)\<lparr>previous := getPrevious (pools st) p\<rparr>"
    using p5 p4 p3 fetched(2) fetched(4) [of p] u c vp pc
    by (simp add: clone_def alloc_def setPrevious_def addToHistory_def Let_def getPrevious_def)
  show "getPrevious (pools st') u = Some (case getPrevious (pools st) p of Some q \<Rightarrow> q | None \<Rightarrow> p)"
    using p5 p4 p3 fetched(2) u c vp pc prev same
    by (simp add: clone_def alloc_def setPrevious_def addToHistory_def Let_def getPrevious_def)
  show "x \<noteq> p \<Longrightarrow> x \<noteq> u \<Longrightarrow> x \<noteq> Suc u \<Longrightarrow> objs (pools st') x = objs (pools st) x"
    using p5 p4 p3 fetched(2) fetched(4) [of x] u c
    by (simp add: clone_def alloc_def setPrevious_def addToHistory_def Let_def)
  have "objs (pools st') u =
          (objs (pools s1) u)
            \<lparr>previous := Some (case getPrevious (pools st) p of Some q \<Rightarrow> q | None \<Rightarrow> p)\<rparr>"
    using p5 p4 p3 fetched(2) u c vp pc prev same
    by (simp add: clone_def alloc_def setPrevious_def addToHistory_def Let_def)
  then show "\<exists>s1. getPool env (pool.address (poolAt st p)) st = (Inr u, s1) \<and>
           objs (pools st') u =
             (objs (pools s1) u)
               \<lparr>previous := Some (case getPrevious (pools st) p of Some q \<Rightarrow> q | None \<Rightarrow> p)\<rparr> \<and>
           accounts st' = accounts s1 \<and> chain st' = chain s1"
    using gp o3 o4 o5 unfolding a u by auto
qed

lemma wellFormedD:
  "wellFormed st \<Longrightarrow> a < nextAddr st \<Longrightarrow> getPrevious st a = Some b \<Longrightarrow> b < nextAddr st"
  unfolding wellFormed_def getPrevious_def list_all_iff by (auto split: option.splits)

lemma updatePool_head_not_in_chain:
  assumes run: "updatePool env p st = (Inr u, st')" and p: "p < nextAddr (pools st)"
    and wf: "wellFormed (pools st)"
  shows "walk (pools st') k (Some p) \<noteq> Some u"
proof
  assume reach: "walk (pools st') k (Some p) = Some u"
  note upd = updatePool_Inr [OF run p]
  define S where "S = {a. a < nextAddr (pools st)} \<union> {Suc u}"
  have closed: "b \<in> S" if a: "a \<in> S" and step: "getPrevious (pools st') a = Some b" for a b
  proof (cases "a = p")
    case True
    then have "b = Suc u" using step upd(3) by (simp add: getPrevious_def)
    then show ?thesis by (simp add: S_def)
  next
    case notp: False
    show ?thesis
    proof (cases "a = Suc u")
      case True
      then have "getPrevious (pools st) p = Some b"
        using step upd(4) by (simp add: getPrevious_def)
      then have "b < nextAddr (pools st)" using wf p by (rule wellFormedD [rotated 2])
      then show ?thesis by (simp add: S_def)
    next
      case False
      then have old: "a < nextAddr (pools st)" using a by (simp add: S_def)
      then have "a \<noteq> u" using upd(1) by simp
      then have "objs (pools st') a = objs (pools st) a"
        using notp False by (intro upd(6))
      then have "getPrevious (pools st) a = Some b" using step by (simp add: getPrevious_def)
      then have "b < nextAddr (pools st)" using wf old by (rule wellFormedD [rotated 2])
      then show ?thesis by (simp add: S_def)
    qed
  qed
  have "p \<in> S" using p by (simp add: S_def)
  then have "u \<in> S" using reach closed by (rule walk_closed [rotated])
  then show False using upd(1) by (simp add: S_def)
qed

lemma pair_of_fst: "fst x = a \<Longrightarrow> x = (a, snd x)"
  by (cases x) simp

text \<open>
  C1 (amended). When the fetch succeeds, \<^verbatim>\<open>updatePool\<close> returns the newly built snapshot:
  the object that \<^verbatim>\<open>getPool\<close> built from the chain for the address of the pool, a new
  object and not the original, whose \<^verbatim>\<open>previous\<close> is the original's former
  \<^verbatim>\<open>previous\<close> or, when it had none, the original. It calls \<^verbatim>\<open>addToHistory\<close> on the
  original with a clone of the new snapshot, so that \<^verbatim>\<open>getPrevious()\<close> of the original,
  which is otherwise as it was, is that clone: a further new object with the fields of the
  new snapshot, whose \<^verbatim>\<open>previous\<close> is the original's former \<^verbatim>\<open>previous\<close>.
  \<^verbatim>\<open>updateTokenAccountInfo\<close> returns the newly built snapshot: the object that
  \<^verbatim>\<open>tokenAccountInfo\<close> built for the address of the account, with the balance and the
  slot of the node's answer, a new object with \<^verbatim>\<open>previous\<close> set to the original. It leaves
  the original as it is: it does not call \<^verbatim>\<open>addToHistory\<close>. Each of the two holds
  whenever its own update succeeds.
\<close>

theorem update_returns_new_snapshot:
  "(fst (updatePool env p st) = Inr updatedPool \<and> p < nextAddr (pools st) \<longrightarrow>
      updatedPool \<noteq> p \<and> nextAddr (pools st) \<le> updatedPool \<and>
      fst (getPool env (pool.address (poolAt st p)) st) = Inr updatedPool \<and>
      objs (pools (snd (updatePool env p st))) updatedPool =
        (objs (pools (snd (getPool env (pool.address (poolAt st p)) st))) updatedPool)
          \<lparr>previous := Some (case getPrevious (pools st) p of Some q \<Rightarrow> q | None \<Rightarrow> p)\<rparr> \<and>
      accounts (snd (updatePool env p st)) =
        accounts (snd (getPool env (pool.address (poolAt st p)) st)) \<and>
      getPrevious (pools (snd (updatePool env p st))) updatedPool =
        Some (case getPrevious (pools st) p of Some q \<Rightarrow> q | None \<Rightarrow> p) \<and>
      objs (pools (snd (updatePool env p st))) p =
        (objs (pools st) p)\<lparr>previous := Some (Suc updatedPool)\<rparr> \<and>
      getPrevious (pools (snd (updatePool env p st))) p = Some (Suc updatedPool) \<and>
      objs (pools (snd (updatePool env p st))) (Suc updatedPool) =
        (objs (pools (snd (updatePool env p st))) updatedPool)
          \<lparr>previous := getPrevious (pools st) p\<rparr>) \<and>
   (fst (updateTokenAccountInfo env t ts) = Inr (Some updatedTokenAccount) \<and>
    t < nextAddr (accounts ts) \<longrightarrow>
      updatedTokenAccount \<noteq> t \<and> nextAddr (accounts ts) \<le> updatedTokenAccount \<and>
      fst (tokenAccountInfo env (tokenAccount.address (account ts t)) ts) =
        Inr (Some updatedTokenAccount) \<and>
      objs (accounts (snd (updateTokenAccountInfo env t ts))) updatedTokenAccount =
        (objs (accounts (snd (tokenAccountInfo env (tokenAccount.address (account ts t)) ts)))
           updatedTokenAccount)\<lparr>previous := Some t\<rparr> \<and>
      (\<exists>res parsedInfo amount.
         fst (connection_getParsedAccountInfo env (tokenAccount.address (account ts t)) (chain ts))
           = Inr res \<and>
         extractParsedTokenAccountInfo (accountValue res) = Some parsedInfo \<and>
         infoTokenAmount parsedInfo = Some amount \<and>
         balance (objs (accounts (snd (updateTokenAccountInfo env t ts))) updatedTokenAccount) =
           of_nat amount \<and>
         lastUpdatedSlot (objs (accounts (snd (updateTokenAccountInfo env t ts))) updatedTokenAccount) =
           Some (contextSlot res)) \<and>
      getPrevious (accounts (snd (updateTokenAccountInfo env t ts))) updatedTokenAccount = Some t \<and>
      objs (accounts (snd (updateTokenAccountInfo env t ts))) t = objs (accounts ts) t)"
proof (intro conjI impI; elim conjE)
  assume pool_run: "fst (updatePool env p st) = Inr updatedPool"
    and pool_exists: "p < nextAddr (pools st)"
  note pl = updatePool_Inr [OF pair_of_fst [OF pool_run] pool_exists]
  from pl(7) obtain s1 where
    fetch: "getPool env (pool.address (poolAt st p)) st = (Inr updatedPool, s1)" and
    built: "objs (pools (snd (updatePool env p st))) updatedPool =
             (objs (pools s1) updatedPool)
               \<lparr>previous := Some (case getPrevious (pools st) p of Some q \<Rightarrow> q | None \<Rightarrow> p)\<rparr>" and
    others: "accounts (snd (updatePool env p st)) = accounts s1"
    by blast
  show "updatedPool \<noteq> p" "nextAddr (pools st) \<le> updatedPool"
    using pl(1) pool_exists by simp_all
  show "fst (getPool env (pool.address (poolAt st p)) st) = Inr updatedPool"
    using fetch by simp
  show "objs (pools (snd (updatePool env p st))) updatedPool =
        (objs (pools (snd (getPool env (pool.address (poolAt st p)) st))) updatedPool)
          \<lparr>previous := Some (case getPrevious (pools st) p of Some q \<Rightarrow> q | None \<Rightarrow> p)\<rparr>"
    using built fetch by simp
  show "accounts (snd (updatePool env p st)) =
        accounts (snd (getPool env (pool.address (poolAt st p)) st))"
    using others fetch by simp
  show "getPrevious (pools (snd (updatePool env p st))) updatedPool =
        Some (case getPrevious (pools st) p of Some q \<Rightarrow> q | None \<Rightarrow> p)"
    by (rule pl(5))
  show "objs (pools (snd (updatePool env p st))) p =
        (objs (pools st) p)\<lparr>previous := Some (Suc updatedPool)\<rparr>"
    by (rule pl(3))
  then show "getPrevious (pools (snd (updatePool env p st))) p = Some (Suc updatedPool)"
    by (simp add: getPrevious_def)
  show "objs (pools (snd (updatePool env p st))) (Suc updatedPool) =
        (objs (pools (snd (updatePool env p st))) updatedPool)
          \<lparr>previous := getPrevious (pools st) p\<rparr>"
    by (rule pl(4))
next
  assume account_run: "fst (updateTokenAccountInfo env t ts) = Inr (Some updatedTokenAccount)"
    and account_exists: "t < nextAddr (accounts ts)"
  note ac = updateTokenAccountInfo_Some [OF pair_of_fst [OF account_run]]
  from ac(4) obtain s1 where
    fetch: "tokenAccountInfo env (tokenAccount.address (account ts t)) ts =
              (Inr (Some updatedTokenAccount), s1)" and
    after: "snd (updateTokenAccountInfo env t ts) =
              s1\<lparr>accounts := setPrevious updatedTokenAccount t (accounts s1)\<rparr>"
    by blast
  note info = tokenAccountInfo_Some [OF fetch]
  show new: "updatedTokenAccount \<noteq> t" and "nextAddr (accounts ts) \<le> updatedTokenAccount"
    using ac(1) account_exists by simp_all
  show "fst (tokenAccountInfo env (tokenAccount.address (account ts t)) ts) =
        Inr (Some updatedTokenAccount)"
    using fetch by simp
  show built: "objs (accounts (snd (updateTokenAccountInfo env t ts))) updatedTokenAccount =
        (objs (accounts (snd (tokenAccountInfo env (tokenAccount.address (account ts t)) ts)))
           updatedTokenAccount)\<lparr>previous := Some t\<rparr>"
    unfolding after fetch by (simp add: setPrevious_def)
  from info(6) show "\<exists>res parsedInfo amount.
         fst (connection_getParsedAccountInfo env (tokenAccount.address (account ts t)) (chain ts))
           = Inr res \<and>
         extractParsedTokenAccountInfo (accountValue res) = Some parsedInfo \<and>
         infoTokenAmount parsedInfo = Some amount \<and>
         balance (objs (accounts (snd (updateTokenAccountInfo env t ts))) updatedTokenAccount) =
           of_nat amount \<and>
         lastUpdatedSlot (objs (accounts (snd (updateTokenAccountInfo env t ts))) updatedTokenAccount) =
           Some (contextSlot res)"
    unfolding built fetch by simp
  show "getPrevious (accounts (snd (updateTokenAccountInfo env t ts))) updatedTokenAccount = Some t"
    by (rule ac(2))
  show "objs (accounts (snd (updateTokenAccountInfo env t ts))) t = objs (accounts ts) t"
    using ac(3) [of t] new by simp
qed

lemma example_updateTokenAccountInfo:
  "fst (updateTokenAccountInfo exampleEnv 3 exampleState) = Inr (Some 5)"
  by (simp add: updateTokenAccountInfo_def api_defs example_defs)

lemma example_updatePool: "fst (updatePool exampleEnv 0 exampleState) = Inr 1"
  by (simp add: updatePool_def getPool_def api_defs example_defs)

text \<open>
  The pool object 0 and the account object 3 were built at slot 4. The update of the pool
  at slot 5 returns the new object 1 of slot 5 and puts its clone 2 before the original;
  the update of the account at slot 5 returns the new object 5 with the balance 1005 that
  the node reports at slot 5, and the original keeps its balance of 50.
\<close>

theorem update_returns_new_snapshot_witness:
  "fst (updatePool exampleEnv 0 exampleState) = Inr 1 \<and>
   0 < nextAddr (pools exampleState) \<and>
   fst (updateTokenAccountInfo exampleEnv 3 exampleState) = Inr (Some 5) \<and>
   3 < nextAddr (accounts exampleState) \<and>
   fst (getPool exampleEnv (PublicKey 100) exampleState) = Inr 1 \<and>
   lastUpdatedSlot (objs (pools (snd (updatePool exampleEnv 0 exampleState))) 1) = Some 5 \<and>
   lastUpdatedSlot (objs (pools exampleState) 0) = Some 4 \<and>
   getPrevious (pools (snd (updatePool exampleEnv 0 exampleState))) 1 = Some 0 \<and>
   getPrevious (pools (snd (updatePool exampleEnv 0 exampleState))) 0 = Some 2 \<and>
   fst (tokenAccountInfo exampleEnv (PublicKey 10) exampleState) = Inr (Some 5) \<and>
   balance (objs (accounts (snd (updateTokenAccountInfo exampleEnv 3 exampleState))) 5) = 1005 \<and>
   lastUpdatedSlot (objs (accounts (snd (updateTokenAccountInfo exampleEnv 3 exampleState))) 5) =
     Some 5 \<and>
   getPrevious (accounts (snd (updateTokenAccountInfo exampleEnv 3 exampleState))) 5 = Some 3 \<and>
   objs (accounts (snd (updateTokenAccountInfo exampleEnv 3 exampleState))) 3 =
     objs (accounts exampleState) 3 \<and>
   balance (objs (accounts exampleState) 3) = 50"
proof -
  have h2: "0 < nextAddr (pools exampleState)" and h4: "3 < nextAddr (accounts exampleState)"
    and h5: "getPrevious (pools exampleState) 0 = None"
    and h6: "pool.address (poolAt exampleState 0) = PublicKey 100"
      "tokenAccount.address (account exampleState 3) = PublicKey 10"
      "lastUpdatedSlot (objs (pools exampleState) 0) = Some 4"
      "balance (objs (accounts exampleState) 3) = 50"
    by (simp_all add: exampleState_def getPrevious_def examplePool_def exampleAccount_def
        poolAt_def account_def)
  have fresh: "lastUpdatedSlot (objs (pools (snd (updatePool exampleEnv 0 exampleState))) 1) = Some 5"
    "balance (objs (accounts (snd (updateTokenAccountInfo exampleEnv 3 exampleState))) 5) = 1005"
    "lastUpdatedSlot (objs (accounts (snd (updateTokenAccountInfo exampleEnv 3 exampleState))) 5) =
       Some 5"
    by (simp_all add: updatePool_def getPool_def updateTokenAccountInfo_def api_defs example_defs
        toDecimal_def)
  show ?thesis
    using update_returns_new_snapshot
      [of exampleEnv 0 exampleState 1 3 exampleState 5]
      example_updatePool example_updateTokenAccountInfo h2 h4 h5 h6 fresh
    by simp
qed

text \<open>
  The claim as it is stated fails for a token account: after a successful
  \<^verbatim>\<open>updateTokenAccountInfo\<close> on the account object 3, which returns the new object 5,
  \<^verbatim>\<open>getPrevious()\<close> of the original is still undefined.
\<close>

theorem update_returns_new_snapshot_counterexample:
  "fst (updateTokenAccountInfo exampleEnv 3 exampleState) = Inr (Some 5) \<and>
   getPrevious (accounts (snd (updateTokenAccountInfo exampleEnv 3 exampleState))) 3 = None \<and>
   getPrevious (accounts (snd (updateTokenAccountInfo exampleEnv 3 exampleState))) 3 \<noteq> Some 5"
proof -
  have "getPrevious (accounts (snd (updateTokenAccountInfo exampleEnv 3 exampleState))) 3 = None"
    by (simp add: updateTokenAccountInfo_def api_defs example_defs)
  then show ?thesis using example_updateTokenAccountInfo by simp
qed

text \<open>
  C4 (amended). After \<^verbatim>\<open>addToHistory\<close> was called \<open>k\<close> times on an entity, with \<open>k\<close>
  distinct snapshots other than the entity, the chain from the entity runs through the
  snapshots, the last one added first, and then into the chain the entity had: walking
  \<^verbatim>\<open>previous\<close> \<open>k + 1\<close> times from the entity reaches what was its \<^verbatim>\<open>previous\<close> before the
  calls (\<open>k\<close> times reach the snapshot added first). Each call makes the old \<^verbatim>\<open>previous\<close>
  of the entity the \<^verbatim>\<open>previous\<close> of the inserted snapshot and the inserted snapshot the
  \<^verbatim>\<open>previous\<close> of the entity. The snapshot that \<^verbatim>\<open>updatePool\<close> returns is not an
  object of the chain of the pool it updated.
\<close>

theorem history_chain:
  assumes "distinct snapshots" and "this \<notin> set snapshots"
    and "fst (updatePool env p st) = Inr head"
    and "wellFormed (pools st)" and "p < nextAddr (pools st)"
  shows "walk (foldl (\<lambda>s n. addToHistory this n s) es snapshots) (Suc (length snapshots))
           (Some this) = getPrevious es this \<and>
         path (foldl (\<lambda>s n. addToHistory this n s) es snapshots) (Some this)
           (this # rev snapshots) (getPrevious es this) \<and>
         (\<forall>new. getPrevious (addToHistory this new es) this = Some new) \<and>
         (\<forall>new. new \<noteq> this \<longrightarrow> getPrevious (addToHistory this new es) new = getPrevious es this) \<and>
         (\<forall>k. walk (pools (snd (updatePool env p st))) k (Some p) \<noteq> Some head)"
proof -
  have chain: "path (foldl (\<lambda>s n. addToHistory this n s) es snapshots) (Some this)
           (this # rev snapshots) (getPrevious es this)"
    using assms(1,2) by (rule path_after_addToHistory)
  from path_walk [OF chain]
  have "walk (foldl (\<lambda>s n. addToHistory this n s) es snapshots) (Suc (length snapshots))
           (Some this) = getPrevious es this"
    by simp
  moreover have "walk (pools (snd (updatePool env p st))) k (Some p) \<noteq> Some head" for k
    using pair_of_fst [OF assms(3)] assms(5,4) by (rule updatePool_head_not_in_chain)
  ultimately show ?thesis using chain by simp
qed

lemma example_wellFormed: "wellFormed (pools exampleState)"
  by (simp add: wellFormed_def exampleState_def examplePool_def)

theorem history_chain_witness:
  "distinct [2, 3 :: nat] \<and> (0 :: nat) \<notin> set [2, 3] \<and>
   fst (updatePool exampleEnv 0 exampleState) = Inr 1 \<and>
   wellFormed (pools exampleState) \<and> 0 < nextAddr (pools exampleState) \<and>
   walk (foldl (\<lambda>s n. addToHistory 0 n s) exampleEntities [2, 3]) (Suc (length [2, 3 :: nat]))
     (Some 0) = Some 1 \<and>
   path (foldl (\<lambda>s n. addToHistory 0 n s) exampleEntities [2, 3]) (Some 0) (0 # rev [2, 3])
     (Some 1) \<and>
   getPrevious (addToHistory 0 2 exampleEntities) 0 = Some 2 \<and>
   getPrevious (addToHistory 0 2 exampleEntities) 2 = Some 1 \<and>
   (\<forall>k. walk (pools (snd (updatePool exampleEnv 0 exampleState))) k (Some 0) \<noteq> Some 1)"
proof -
  have h1: "distinct [2, 3 :: nat]" and h2: "(0 :: nat) \<notin> set [2, 3]" by simp_all
  have h5: "0 < nextAddr (pools exampleState)" by (simp add: exampleState_def)
  have prev: "getPrevious exampleEntities 0 = Some 1"
    by (simp add: exampleEntities_def getPrevious_def)
  have two: "(2 :: nat) \<noteq> 0" by simp
  show ?thesis
    using history_chain [OF h1 h2 example_updatePool example_wellFormed h5, of exampleEntities]
      h1 h2 h5 example_updatePool example_wellFormed prev two
    by (simp del: foldl.simps path.simps walk.simps)
qed

text \<open>
  The claim as it is stated fails already for one call: walking \<^verbatim>\<open>previous\<close> once
  from the entity 0 reaches the inserted snapshot 2, which is neither the entity nor its
  former \<^verbatim>\<open>previous\<close> 1; that one is reached by walking twice. In \<^verbatim>\<open>updatePool\<close> the
  inserted snapshot is the clone of the pool just fetched (slot 5), not the state the pool
  object had (slot 4).
\<close>

theorem history_chain_counterexample:
  "walk (foldl (\<lambda>s n. addToHistory 0 n s) exampleEntities [2]) (length [2 :: nat]) (Some 0) = Some 2 \<and>
   getPrevious exampleEntities 0 = Some 1 \<and>
   walk (foldl (\<lambda>s n. addToHistory 0 n s) exampleEntities [2]) (length [2 :: nat]) (Some 0)
     \<noteq> getPrevious exampleEntities 0 \<and>
   walk (foldl (\<lambda>s n. addToHistory 0 n s) exampleEntities [2]) (length [2 :: nat]) (Some 0)
     \<noteq> Some 0 \<and>
   walk (foldl (\<lambda>s n. addToHistory 0 n s) exampleEntities [2]) (Suc (length [2 :: nat])) (Some 0)
     = getPrevious exampleEntities 0 \<and>
   fst (updatePool exampleEnv 0 exampleState) = Inr 1 \<and>
   walk (pools (snd (updatePool exampleEnv 0 exampleState))) 1 (Some 0) = Some 2 \<and>
   lastUpdatedSlot (objs (pools (snd (updatePool exampleEnv 0 exampleState))) 2) = Some 5 \<and>
   lastUpdatedSlot (objs (pools exampleState) 0) = Some 4"
proof -
  have "walk (pools (snd (updatePool exampleEnv 0 exampleState))) 1 (Some 0) = Some 2"
    "lastUpdatedSlot (objs (pools (snd (updatePool exampleEnv 0 exampleState))) 2) = Some 5"
    "lastUpdatedSlot (objs (pools exampleState) 0) = Some 4"
    by (simp_all add: updatePool_def getPool_def api_defs example_defs)
  then show ?thesis
    using example_updatePool
    by (simp add: exampleEntities_def getPrevious_def addToHistory_def Let_def)
qed

section \<open>Building and sending transactions\<close>

lemma makeTransaction_Inr:
  assumes "makeTransaction env instrs signers s = (Inr tx, s')"
  shows "instructions tx = instrs" and "accounts s' = accounts s" and "pools s' = pools s"
    and "sent s' = sent s"
proof -
  show "accounts s' = accounts s" "pools s' = pools s" "sent s' = sent s"
    using assms keeps_makeTransaction by (metis keepsD)+
  from assms show "instructions tx = instrs"
    unfolding makeTransaction_def by (elim andThen_Inr) auto
qed

lemma sendTransaction_Inr:
  assumes "sendTransaction env tx s = (Inr signature, s')"
  shows "sent s' = sent s @ [tx]" and "accounts s' = accounts s" and "pools s' = pools s"
proof -
  show "accounts s' = accounts s" "pools s' = pools s"
    using assms keeps_sendTransaction by (metis keepsD)+
  from assms obtain u1 s1 u2 s2 where
    "connected env s = (Inr u1, s1)" and
    log: "resolve () (s1\<lparr>sent := sent s1 @ [tx]\<rparr>) = (Inr u2, s2)" and
    submit: "onChain (wallet_signAndSubmit env tx) s2 = (Inr signature, s')"
    unfolding sendTransaction_def by (elim andThen_Inr)
  then have "sent s1 = sent s" using keeps_connected by (metis keepsD)
  moreover have "sent s' = sent s2" using keeps_onChain_sent submit by (rule keepsD)
  ultimately show "sent s' = sent s @ [tx]" using log by auto
qed

lemma Token_createApproveInstruction_Inr:
  "Token_createApproveInstruction args = Inr i \<longleftrightarrow>
   i = Approve args \<and> \<bar>u64BN (approveAmount args)\<bar> < 2 ^ 64"
  by (auto simp: Token_createApproveInstruction_def u64_toBuffer_def)

lemma TokenSwap_swapInstruction_Inr:
  "TokenSwap_swapInstruction args = Inr i \<Longrightarrow> i = Swap args"
  by (auto simp: TokenSwap_swapInstruction_def split: sum.splits)

lemma TokenSwap_depositInstruction_Inr:
  "TokenSwap_depositInstruction args = Inr i \<longleftrightarrow>
   i = Deposit args \<and> \<bar>numberu64BN (depositPoolTokenAmount args)\<bar> < 2 ^ 64 \<and>
   \<bar>numberu64BN (depositMaximumTokenA args)\<bar> < 2 ^ 64 \<and>
   \<bar>numberu64BN (depositMaximumTokenB args)\<bar> < 2 ^ 64"
  by (auto simp: TokenSwap_depositInstruction_def Numberu64_toBuffer_def)

lemma approveInstruction_Inr:
  assumes "approveInstruction env src d amt s = (Inr i, s')"
  shows "\<exists>a. i = Approve a \<and> approveSource a = tokenAccount.address (account s src) \<and>
           approveDelegate a = d \<and> toU64 amt = Inr (approveAmount a) \<and>
           \<bar>u64BN (approveAmount a)\<bar> < 2 ^ 64"
    and "accounts s' = accounts s" and "pools s' = pools s" and "sent s' = sent s"
proof -
  show "accounts s' = accounts s" "pools s' = pools s" "sent s' = sent s"
    using assms keeps_approveInstruction by (metis keepsD)+
  from assms show "\<exists>a. i = Approve a \<and> approveSource a = tokenAccount.address (account s src) \<and>
           approveDelegate a = d \<and> toU64 amt = Inr (approveAmount a) \<and>
           \<bar>u64BN (approveAmount a)\<bar> < 2 ^ 64"
    unfolding approveInstruction_def
    by (elim andThen_Inr) (auto simp: Token_createApproveInstruction_Inr)
qed

lemma createSwapTransactionInstruction_Inr:
  assumes "createSwapTransactionInstruction env rp s = (Inr i, s')"
  shows "\<exists>m args.
           Pool_calculateAmountInOtherToken env (account s) (poolAt s (swapParametersOf.pool rp))
             (mint (account s (fromAccount rp))) (fromAmount rp) True = Inr m \<and>
           i = Swap args \<and>
           toNumberU64 (adjustForSlippage m Down (swapParametersOf.slippage rp)) =
             Inr (swapMinimumAmountOut args)"
    and "accounts s' = accounts s" and "pools s' = pools s" and "sent s' = sent s"
proof -
  have k: "keeps accounts (createSwapTransactionInstruction env rp)"
    "keeps pools (createSwapTransactionInstruction env rp)"
    "keeps sent (createSwapTransactionInstruction env rp)"
    by (auto simp: createSwapTransactionInstruction_def intro!: keeps_intros)
  show "accounts s' = accounts s" "pools s' = pools s" "sent s' = sent s"
    using assms k by (metis keepsD)+
  from assms show "\<exists>m args.
           Pool_calculateAmountInOtherToken env (account s) (poolAt s (swapParametersOf.pool rp))
             (mint (account s (fromAccount rp))) (fromAmount rp) True = Inr m \<and>
           i = Swap args \<and>
           toNumberU64 (adjustForSlippage m Down (swapParametersOf.slippage rp)) =
             Inr (swapMinimumAmountOut args)"
    unfolding createSwapTransactionInstruction_def
    by (elim andThen_Inr) (auto dest!: TokenSwap_swapInstruction_Inr)
qed

section \<open>Swapping\<close>

lemma swap_Inr:
  assumes "swap env parameters st = (Inr signature, st')"
  shows "\<exists>m approve args.
           Pool_calculateAmountInOtherToken env (account st')
             (poolAt st' (swapParametersOf.pool parameters))
             (mint (account st' (fromAccount parameters))) (fromAmount parameters) True = Inr m \<and>
           sent st' \<noteq> [] \<and>
           instructions (last (sent st')) = [Approve approve, Swap args] \<and>
           toU64 (fromAmount parameters) = Inr (approveAmount approve) \<and>
           toNumberU64 (adjustForSlippage m Down (DEFAULT_SLIPPAGE env)) =
             Inr (swapMinimumAmountOut args)"
proof -
  from assms obtain toAcc delegate approveInstr swapInstr tx s5 s6 s7 s8 where
    ap: "approveInstruction env (fromAccount parameters) delegate (fromAmount parameters) s5
           = (Inr approveInstr, s6)" and
    cs: "createSwapTransactionInstruction env
           \<lparr>swapParametersOf.pool = swapParametersOf.pool parameters,
            swapParametersOf.slippage = DEFAULT_SLIPPAGE env,
            fromAccount = fromAccount parameters, toAccount = toAcc,
            identity = identity parameters, fromAmount = fromAmount parameters\<rparr> s6
           = (Inr swapInstr, s7)" and
    mk: "makeTransaction env [approveInstr, swapInstr] [] s7 = (Inr tx, s8)" and
    sd: "sendTransaction env tx s8 = (Inr signature, st')"
    unfolding swap_def by (elim andThen_Inr) blast
  note a = approveInstruction_Inr [OF ap]
  note c = createSwapTransactionInstruction_Inr [OF cs]
  note m = makeTransaction_Inr [OF mk]
  note s = sendTransaction_Inr [OF sd]
  have acc: "account st' = account s6" and pl: "poolAt st' = poolAt s6"
    using c(2,3) m(2,3) s(2,3) by (simp_all add: account_def poolAt_def fun_eq_iff)
  from a(1) obtain approve where
    approve: "approveInstr = Approve approve"
      "toU64 (fromAmount parameters) = Inr (approveAmount approve)"
    by blast
  from c(1) obtain m' args where
    calc: "Pool_calculateAmountInOtherToken env (account s6)
             (poolAt s6 (swapParametersOf.pool parameters))
             (mint (account s6 (fromAccount parameters))) (fromAmount parameters) True = Inr m'" and
    args: "swapInstr = Swap args"
      "toNumberU64 (adjustForSlippage m' Down (DEFAULT_SLIPPAGE env)) =
         Inr (swapMinimumAmountOut args)"
    by auto
  have "sent st' \<noteq> []" "instructions (last (sent st')) = [Approve approve, Swap args]"
    using s(1) m(1) approve(1) args(1) by simp_all
  then show ?thesis
    using calc approve(2) args(2) unfolding acc pl by blast
qed

lemma validateSwapParameters_slippage:
  "validateSwapParameters (parameters\<lparr>swapParametersOf.slippage := s\<rparr>) =
   validateSwapParameters parameters"
  by (rule ext) (simp add: validateSwapParameters_def isSwapBetween_def)

text \<open>
  C3. For every call of \<^verbatim>\<open>swap\<close>, the slippage the caller supplies is never used: the
  call does the same whatever it is. When the call succeeds, the transaction it sent
  holds the approve instruction and the swap instruction, and the minimum to-amount of the
  swap instruction is the amount in the other token adjusted down by \<^verbatim>\<open>DEFAULT_SLIPPAGE\<close>,
  as \<^verbatim>\<open>toNumberU64\<close> reads it.
\<close>

theorem swap_uses_default_slippage:
  "(\<forall>s. swap env (parameters\<lparr>swapParametersOf.slippage := s\<rparr>) st = swap env parameters st) \<and>
   (fst (swap env parameters st) = Inr signature \<longrightarrow>
     (\<exists>m approve args.
        Pool_calculateAmountInOtherToken env (account (snd (swap env parameters st)))
          (poolAt (snd (swap env parameters st)) (swapParametersOf.pool parameters))
          (mint (account (snd (swap env parameters st)) (fromAccount parameters)))
          (fromAmount parameters) True = Inr m \<and>
        sent (snd (swap env parameters st)) \<noteq> [] \<and>
        instructions (last (sent (snd (swap env parameters st)))) = [Approve approve, Swap args] \<and>
        toNumberU64 (adjustForSlippage m Down (DEFAULT_SLIPPAGE env)) =
          Inr (swapMinimumAmountOut args)))"
proof (intro conjI allI impI)
  fix s
  show "swap env (parameters\<lparr>swapParametersOf.slippage := s\<rparr>) st = swap env parameters st"
    by (simp add: swap_def validateSwapParameters_slippage cong: if_cong)
next
  assume "fst (swap env parameters st) = Inr signature"
  from swap_Inr [OF pair_of_fst [OF this]]
  show "\<exists>m approve args.
        Pool_calculateAmountInOtherToken env (account (snd (swap env parameters st)))
          (poolAt (snd (swap env parameters st)) (swapParametersOf.pool parameters))
          (mint (account (snd (swap env parameters st)) (fromAccount parameters)))
          (fromAmount parameters) True = Inr m \<and>
        sent (snd (swap env parameters st)) \<noteq> [] \<and>
        instructions (last (sent (snd (swap env parameters st)))) = [Approve approve, Swap args] \<and>
        toNumberU64 (adjustForSlippage m Down (DEFAULT_SLIPPAGE env)) =
          Inr (swapMinimumAmountOut args)"
    by blast
qed

lemmas pool_api_defs =
  swap_def deposit_def validateSwapParameters_def isSwapBetween_def sameToken_def
  Token_equals_def createSwapTransactionInstruction_def isReverseSwap_def

lemmas example_parameter_defs = exampleSwap_def exampleBadSwap_def exampleDeposit_def

lemma example_swap: "fst (swap exampleEnv exampleSwap exampleState) = Inr ''signature''"
  by (simp add: pool_api_defs api_defs example_defs example_parameter_defs)

theorem swap_uses_default_slippage_witness:
  "fst (swap exampleEnv exampleSwap exampleState) = Inr ''signature'' \<and>
   swap exampleEnv (exampleSwap\<lparr>swapParametersOf.slippage := Some 50\<rparr>) exampleState =
     swap exampleEnv exampleSwap exampleState \<and>
   (\<exists>approve args.
      instructions (last (sent (snd (swap exampleEnv exampleSwap exampleState)))) =
        [Approve approve, Swap args] \<and>
      toNumberU64 (adjustForSlippage 20 Down 5) = Inr (swapMinimumAmountOut args) \<and>
      swapMinimumAmountOut args = Numberu64 19)"
proof -
  have env: "DEFAULT_SLIPPAGE exampleEnv = 5"
    "\<And>d p t b m. Pool_calculateAmountInOtherToken exampleEnv d p t (fromAmount exampleSwap) b = Inr m
       \<longleftrightarrow> m = 20"
    by (auto simp: exampleEnv_def exampleSwap_def)
  have nineteen: "toNumberU64 (adjustForSlippage 20 Down 5) = Inr (Numberu64 19)"
    by (simp add: toNumberU64_def adjustForSlippage_def)
  from swap_uses_default_slippage [of exampleEnv exampleSwap exampleState "''signature''"]
    example_swap
  obtain m approve args where
    same: "swap exampleEnv (exampleSwap\<lparr>swapParametersOf.slippage := Some 50\<rparr>) exampleState =
      swap exampleEnv exampleSwap exampleState" and
    m: "m = 20" and
    tx: "instructions (last (sent (snd (swap exampleEnv exampleSwap exampleState)))) =
      [Approve approve, Swap args]" and
    minimum: "toNumberU64 (adjustForSlippage m Down 5) = Inr (swapMinimumAmountOut args)"
    unfolding env by blast
  from minimum have "swapMinimumAmountOut args = Numberu64 19"
    unfolding m nineteen by simp
  then show ?thesis
    using example_swap same tx nineteen by auto
qed

section \<open>Depositing\<close>

lemma account_eqI: "accounts s' = accounts s \<Longrightarrow> account s' = account s"
  by (simp add: account_def fun_eq_iff)

lemma poolAt_eqI: "pools s' = pools s \<Longrightarrow> poolAt s' = poolAt s"
  by (simp add: poolAt_def fun_eq_iff)

lemma keepsObjects_at: "(\<And>t. keepsObjects (m t)) \<Longrightarrow> keepsObjects (\<lambda>s. m (f s) s)"
  by (simp add: keepsObjects_def)

lemma keepsObjects_poolTokenAccount:
  "keepsObjects (case given of
      Some g \<Rightarrow> resolve g
    | None \<Rightarrow> (\<lambda>st. createAccountForToken env (f st) None st))"
  by (cases given)
    (auto intro: keepsObjects_keeps keeps_intros keepsObjects_at keepsObjects_createAccountForToken)

lemma account_kept:
  assumes "keepsObjects m" and "m s = (r, s')" and "x < nextAddr (accounts s)"
  shows "account s' x = account s x"
  using keepsObjectsD(2) [OF assms] by (simp add: account_def)

lemma approveInstruction_run:
  assumes "approveInstruction env src d amt s = (Inr i, s')"
  shows "(\<exists>a. i = Approve a \<and> approveSource a = tokenAccount.address (account s src) \<and>
           approveDelegate a = d \<and> toU64 amt = Inr (approveAmount a) \<and>
           \<bar>u64BN (approveAmount a)\<bar> < 2 ^ 64) \<and> account s' = account s"
  using approveInstruction_Inr(1,2) [OF assms] account_eqI by blast

lemma deposit_Inr:
  assumes run: "deposit env parameters st = (Inr signature, st')"
    and a: "fromAAccount parameters < nextAddr (accounts st)"
    and b: "fromBAccount parameters < nextAddr (accounts st)"
  shows "\<exists>pta amounts approveA approveB args.
     Pool_getPoolTokenValueOfTokenAAmount env (account st)
       (poolAt st (depositParameters.pool parameters)) (fromAAmount parameters) = Inr pta \<and>
     Pool_calculateAmountsWithSlippage env (account st)
       (poolAt st (depositParameters.pool parameters)) pta Up
       (depositParameters.slippage parameters) = Inr amounts \<and>
     sent st' \<noteq> [] \<and>
     instructions (last (sent st')) = [Approve approveA, Approve approveB, Deposit args] \<and>
     approveSource approveA = tokenAccount.address (account st (fromAAccount parameters)) \<and>
     approveSource approveB = tokenAccount.address (account st (fromBAccount parameters)) \<and>
     approveDelegate approveA = depositAuthority args \<and>
     approveDelegate approveB = depositAuthority args \<and>
     depositFromAAccount args = tokenAccount.address (account st (fromAAccount parameters)) \<and>
     depositFromBAccount args = tokenAccount.address (account st (fromBAccount parameters)) \<and>
     toU64 (min (tokenAAmount amounts) (balance (account st (fromAAccount parameters)))) =
       Inr (approveAmount approveA) \<and>
     toU64 (min (tokenBAmount amounts) (balance (account st (fromBAccount parameters)))) =
       Inr (approveAmount approveB) \<and>
     toNumberU64 (min (tokenAAmount amounts) (balance (account st (fromAAccount parameters)))) =
       Inr (depositMaximumTokenA args) \<and>
     toNumberU64 (min (tokenBAmount amounts) (balance (account st (fromBAccount parameters)))) =
       Inr (depositMaximumTokenB args) \<and>
     \<bar>u64BN (approveAmount approveA)\<bar> < 2 ^ 64 \<and>
     \<bar>u64BN (approveAmount approveB)\<bar> < 2 ^ 64 \<and>
     \<bar>numberu64BN (depositMaximumTokenA args)\<bar> < 2 ^ 64 \<and>
     \<bar>numberu64BN (depositMaximumTokenB args)\<bar> < 2 ^ 64"
  using run unfolding deposit_def
  apply (elim andThen_Inr)
  apply (clarsimp simp: TokenSwap_depositInstruction_Inr)
  apply (frule keepsD [OF keeps_tokenSwapAuthority(1)])
  apply (frule keepsD [OF keeps_tokenSwapAuthority(1), THEN account_eqI])
  apply (frule keepsD [OF keeps_tokenSwapAuthority(2), THEN poolAt_eqI])
  apply (frule account_kept [OF keepsObjects_poolTokenAccount, where x = "fromAAccount parameters"])
  using a apply simp
  apply (frule account_kept [OF keepsObjects_poolTokenAccount, where x = "fromBAccount parameters"])
  using b apply simp
  apply (drule approveInstruction_run)+
  apply (drule makeTransaction_Inr(1))
  apply (drule sendTransaction_Inr(1))
  apply clarsimp
  done

lemma u64_toBuffer_magnitude:
  assumes "toU64 number = Inr amount" and "\<bar>u64BN amount\<bar> < 2 ^ 64"
  shows "\<exists>n. u64_toBuffer amount = Inr n \<and> (of_nat n :: rat) = \<bar>number\<bar>"
  using assms by (auto simp: toU64_Inr u64_toBuffer_def)

lemma Numberu64_toBuffer_magnitude:
  assumes "toNumberU64 number = Inr amount" and "\<bar>numberu64BN amount\<bar> < 2 ^ 64"
  shows "\<exists>n. Numberu64_toBuffer amount = Inr n \<and> (of_nat n :: rat) = \<bar>number\<bar>"
  using assms by (auto simp: toNumberU64_Inr Numberu64_toBuffer_def)

section \<open>Validation of a swap\<close>

text \<open>
  C5. For every \<^verbatim>\<open>SwapParameters\<close> whose \<^verbatim>\<open>fromAccount\<close>/\<^verbatim>\<open>toAccount\<close> pair is neither a
  swap between (\<^verbatim>\<open>pool.tokenA\<close>, \<^verbatim>\<open>pool.tokenB\<close>) nor one between (\<^verbatim>\<open>pool.tokenB\<close>,
  \<^verbatim>\<open>pool.tokenA\<close>), compared by mint, \<^verbatim>\<open>swap\<close> fails with the error of the assertion in
  \<^verbatim>\<open>validateSwapParameters\<close>, whatever the chain and the wallet would answer, and leaves the
  state as it was: no call of the chain was made, no object and no instruction was
  built, and nothing was sent.
\<close>

theorem swap_rejects_invalid_accounts:
  assumes "\<not> isSwapBetween parameters st
             (account st (tokenA (poolAt st (swapParametersOf.pool parameters))))
             (account st (tokenB (poolAt st (swapParametersOf.pool parameters))))"
    and "\<not> isSwapBetween parameters st
             (account st (tokenB (poolAt st (swapParametersOf.pool parameters))))
             (account st (tokenA (poolAt st (swapParametersOf.pool parameters))))"
  shows "swap env parameters st =
           (Inl (AssertionError ''Invalid accounts for fromAccount or toAccount.''), st)"
  using assms
  by (simp add: swap_def validateSwapParameters_def andThen_def assertThat_def reject_def)

theorem swap_rejects_invalid_accounts_witness:
  "\<not> isSwapBetween exampleBadSwap exampleState
       (account exampleState (tokenA (poolAt exampleState (swapParametersOf.pool exampleBadSwap))))
       (account exampleState (tokenB (poolAt exampleState (swapParametersOf.pool exampleBadSwap)))) \<and>
   \<not> isSwapBetween exampleBadSwap exampleState
       (account exampleState (tokenB (poolAt exampleState (swapParametersOf.pool exampleBadSwap))))
       (account exampleState (tokenA (poolAt exampleState (swapParametersOf.pool exampleBadSwap)))) \<and>
   fst (swap exampleEnv exampleBadSwap exampleState) =
     Inl (AssertionError ''Invalid accounts for fromAccount or toAccount.'') \<and>
   chain (snd (swap exampleEnv exampleBadSwap exampleState)) = 5 \<and>
   sent (snd (swap exampleEnv exampleBadSwap exampleState)) = []"
proof -
  have h1: "\<not> isSwapBetween exampleBadSwap exampleState
       (account exampleState (tokenA (poolAt exampleState (swapParametersOf.pool exampleBadSwap))))
       (account exampleState (tokenB (poolAt exampleState (swapParametersOf.pool exampleBadSwap))))"
    by (simp add: pool_api_defs api_defs example_defs example_parameter_defs)
  have h2: "\<not> isSwapBetween exampleBadSwap exampleState
       (account exampleState (tokenB (poolAt exampleState (swapParametersOf.pool exampleBadSwap))))
       (account exampleState (tokenA (poolAt exampleState (swapParametersOf.pool exampleBadSwap))))"
    by (simp add: pool_api_defs api_defs example_defs example_parameter_defs)
  have st: "chain exampleState = 5" "sent exampleState = []"
    by (simp_all add: exampleState_def)
  show ?thesis
    using swap_rejects_invalid_accounts [OF h1 h2, of exampleEnv] h1 h2 st by simp
qed

section \<open>Accounts that are not token accounts\<close>

text \<open>
  C7. \<^verbatim>\<open>tokenAccountInfo\<close> is meant to return \<^verbatim>\<open>null\<close> for an account that is not a token
  account (its comment: "this account does not appear to be a token account"). It does so
  for an existing account whose data is a raw buffer, or parsed data with nothing at
  \<^verbatim>\<open>parsed.info\<close>: it resolves with \<^verbatim>\<open>null\<close>, makes no further call and builds no object.
  But for an existing account that the node parses as an account of another kind (a mint,
  say) something stands at \<^verbatim>\<open>parsed.info\<close>, the test for \<^verbatim>\<open>null\<close> passes, and the call
  goes on with the properties of a token account, which are undefined. It rejects: with
  the error of \<^verbatim>\<open>new PublicKey(undefined)\<close>, with the error of the lookup of the mint, or with
  the \<^verbatim>\<open>TypeError\<close> of reading \<^verbatim>\<open>tokenAmount.amount\<close>.
\<close>

theorem tokenAccountInfo_not_a_token_account:
  assumes "connection_getParsedAccountInfo env a (chain st) = (Inr result, w)"
    and "accountValue result = Some info"
  shows "(accountData info = Buffer bytes \<or> accountData info = ParsedAccountData program None \<longrightarrow>
            tokenAccountInfo env a st = (Inr None, st\<lparr>chain := w\<rparr>)) \<and>
         (accountData info = ParsedAccountData program (Some parsedInfo) \<and>
          infoTokenAmount parsedInfo = None \<longrightarrow>
            (\<exists>e. fst (tokenAccountInfo env a st) = Inl e) \<and>
            accounts (snd (tokenAccountInfo env a st)) = accounts st)"
proof (intro conjI impI)
  assume "accountData info = Buffer bytes \<or> accountData info = ParsedAccountData program None"
  then show "tokenAccountInfo env a st = (Inr None, st\<lparr>chain := w\<rparr>)"
    using assms
    by (auto simp: tokenAccountInfo_def andThen_def onChain_def extractParsedTokenAccountInfo_def
        resolve_def)
next
  assume other: "accountData info = ParsedAccountData program (Some parsedInfo) \<and>
          infoTokenAmount parsedInfo = None"
  have ex: "extractParsedTokenAccountInfo (accountValue result) = Some parsedInfo"
    using assms(2) other by (simp add: extractParsedTokenAccountInfo_def)
  have rpc: "onChain (connection_getParsedAccountInfo env a) st = (Inr result, st\<lparr>chain := w\<rparr>)"
    using assms(1) by (simp add: onChain_def)
  have run: "tokenAccountInfo env a st =
      andThen (settle (newPublicKeyOf env (infoMint parsedInfo))) (\<lambda>mintKey.
      andThen (tokenInfo env mintKey) (\<lambda>mintTokenInfo.
      reject (TypeError ''Cannot read property amount of undefined''))) (st\<lparr>chain := w\<rparr>)"
    using other by (simp add: tokenAccountInfo_def rpc ex amountOf_def)
  have k: "keeps accounts (andThen (settle (newPublicKeyOf env (infoMint parsedInfo))) (\<lambda>mintKey.
      andThen (tokenInfo env mintKey) (\<lambda>mintTokenInfo.
      reject (TypeError ''Cannot read property amount of undefined''))))"
    by (intro keeps_intros)
  show "\<exists>e. fst (tokenAccountInfo env a st) = Inl e"
    unfolding run
    by (cases "newPublicKeyOf env (infoMint parsedInfo)")
      (auto simp: andThen_def settle_def reject_def split: sum.splits prod.splits)
  show "accounts (snd (tokenAccountInfo env a st)) = accounts st"
    unfolding run
    using k [unfolded keeps_def, rule_format, of "st\<lparr>chain := w\<rparr>"] by simp
qed

text \<open>
  The account 20 is a raw buffer, and the lookup gives \<^verbatim>\<open>null\<close>. The account 1 is a mint,
  which the node parses: the lookup rejects, here with the error of the lookup of the mint
  of the key zero.
\<close>

theorem tokenAccountInfo_not_a_token_account_witness:
  "connection_getParsedAccountInfo exampleEnv (PublicKey 20) (chain exampleState) =
     (Inr \<lparr>contextSlot = 5,
           accountValue = Some \<lparr>accountData = Buffer [1, 2, 3], accountOwner = PublicKey 0\<rparr>\<rparr>, 6) \<and>
   fst (tokenAccountInfo exampleEnv (PublicKey 20) exampleState) = Inr None \<and>
   nextAddr (accounts (snd (tokenAccountInfo exampleEnv (PublicKey 20) exampleState))) = 5 \<and>
   connection_getParsedAccountInfo exampleEnv (PublicKey 1) (chain exampleState) =
     (Inr \<lparr>contextSlot = 5,
           accountValue = Some \<lparr>accountData = ParsedAccountData ''spl-token''
                                   (Some \<lparr>infoMint = None, infoTokenAmount = None\<rparr>),
                                 accountOwner = TOKEN_PROGRAM_ID\<rparr>\<rparr>, 6) \<and>
   fst (tokenAccountInfo exampleEnv (PublicKey 1) exampleState) =
     Inl (RpcError ''Failed to find mint account'') \<and>
   fst (tokenAccountInfo exampleEnv (PublicKey 1) exampleState) \<noteq> Inr None \<and>
   accounts (snd (tokenAccountInfo exampleEnv (PublicKey 1) exampleState)) = accounts exampleState"
proof -
  have h1: "connection_getParsedAccountInfo exampleEnv (PublicKey 20) (chain exampleState) =
     (Inr \<lparr>contextSlot = 5,
           accountValue = Some \<lparr>accountData = Buffer [1, 2, 3], accountOwner = PublicKey 0\<rparr>\<rparr>, 6)"
    by (simp add: example_defs)
  have h2: "connection_getParsedAccountInfo exampleEnv (PublicKey 1) (chain exampleState) =
     (Inr \<lparr>contextSlot = 5,
           accountValue = Some \<lparr>accountData = ParsedAccountData ''spl-token''
                                   (Some \<lparr>infoMint = None, infoTokenAmount = None\<rparr>),
                                 accountOwner = TOKEN_PROGRAM_ID\<rparr>\<rparr>, 6)"
    by (simp add: example_defs)
  have n: "nextAddr (accounts exampleState) = 5" by (simp add: exampleState_def)
  have e: "fst (tokenAccountInfo exampleEnv (PublicKey 1) exampleState) =
     Inl (RpcError ''Failed to find mint account'')"
    by (simp add: api_defs example_defs)
  show ?thesis
    using tokenAccountInfo_not_a_token_account [OF h1, where bytes = "[1, 2, 3]"]
      tokenAccountInfo_not_a_token_account [OF h2, where program = "''spl-token''"
        and parsedInfo = "\<lparr>infoMint = None, infoTokenAmount = None\<rparr>"]
      h1 h2 n e
    by simp
qed

section \<open>The maximum amounts of a deposit\<close>


lemma example_deposit: "fst (deposit exampleEnv exampleDeposit exampleState) = Inr ''signature''"
  by (simp add: pool_api_defs api_defs example_defs example_parameter_defs)

lemma example_deposit_sent:
  "map instructions (sent (snd (deposit exampleEnv exampleDeposit exampleState))) =
     [[Approve \<lparr>approveProgramId = TOKEN_PROGRAM_ID, approveSource = PublicKey 10,
                 approveDelegate = PublicKey 60, approveOwner = PublicKey 50,
                 approveAmount = U64 42\<rparr>,
       Approve \<lparr>approveProgramId = TOKEN_PROGRAM_ID, approveSource = PublicKey 14,
                 approveDelegate = PublicKey 60, approveOwner = PublicKey 50,
                 approveAmount = U64 70\<rparr>,
       Deposit \<lparr>depositPoolAddress = PublicKey 100, depositAuthority = PublicKey 60,
                 depositFromAAccount = PublicKey 10, depositFromBAccount = PublicKey 14,
                 depositPoolTokenA = PublicKey 11, depositPoolTokenB = PublicKey 12,
                 depositPoolToken = PublicKey 3, depositPoolTokenAccount = PublicKey 13,
                 depositSwapProgramId = PublicKey 99, depositTokenProgramId = TOKEN_PROGRAM_ID,
                 depositPoolTokenAmount = Numberu64 40, depositMaximumTokenA = Numberu64 42,
                 depositMaximumTokenB = Numberu64 70\<rparr>]]"
  by (simp add: pool_api_defs api_defs example_defs example_parameter_defs)

lemma example_negative_deposit_sent:
  "fst (deposit exampleEnv exampleNegativeDeposit exampleState) = Inr ''signature'' \<and>
   map instructions (sent (snd (deposit exampleEnv exampleNegativeDeposit exampleState))) =
     [[Approve \<lparr>approveProgramId = TOKEN_PROGRAM_ID, approveSource = PublicKey 10,
                 approveDelegate = PublicKey 60, approveOwner = PublicKey 50,
                 approveAmount = U64 (- 105)\<rparr>,
       Approve \<lparr>approveProgramId = TOKEN_PROGRAM_ID, approveSource = PublicKey 14,
                 approveDelegate = PublicKey 60, approveOwner = PublicKey 50,
                 approveAmount = U64 (- 210)\<rparr>,
       Deposit \<lparr>depositPoolAddress = PublicKey 100, depositAuthority = PublicKey 60,
                 depositFromAAccount = PublicKey 10, depositFromBAccount = PublicKey 14,
                 depositPoolTokenA = PublicKey 11, depositPoolTokenB = PublicKey 12,
                 depositPoolToken = PublicKey 3, depositPoolTokenAccount = PublicKey 13,
                 depositSwapProgramId = PublicKey 99, depositTokenProgramId = TOKEN_PROGRAM_ID,
                 depositPoolTokenAmount = Numberu64 (- 100),
                 depositMaximumTokenA = Numberu64 (- 105),
                 depositMaximumTokenB = Numberu64 (- 210)\<rparr>]]"
  by (simp add: pool_api_defs api_defs example_defs example_parameter_defs
      exampleNegativeDeposit_def)

lemma last_of_single: "map f xs = [c] \<Longrightarrow> f (last xs) = c"
  by (cases xs) auto



section \<open>The round trip of serialization\<close>

lemma Token_round_trip:
  assumes "\<And>k. newPublicKey c (toBase58 c k) = k" and "\<And>d. newDecimal c (decimalToString c d) = d"
  shows "Token_from c (Token_serialize c t) = t"
  using assms
  by (simp add: Token_from_def Token_serialize_def toDecimal_def option.map_comp o_def
      option.map_ident)

lemma isChain_Some_nonempty: "isChain st (Some a) xs \<Longrightarrow> xs \<noteq> []"
  by (cases xs) auto

lemma serialize_isChain:
  "isChain st (Some this) xs \<Longrightarrow> TokenAccount_serialize c st this = serializeChain c xs"
proof (induction xs arbitrary: this)
  case Nil
  then show ?case by simp
next
  case (Cons x xs)
  from Cons.prems have x: "x = snapshotOf (objs st this)"
    and rest: "isChain st (previous (objs st this)) xs"
    by simp_all
  show ?case
  proof (cases "previous (objs st this)")
    case None
    then have "xs = []" using rest by (cases xs) simp_all
    then show ?thesis
      using None x by (subst TokenAccount_serialize.simps) (simp add: snapshotOf_def)
  next
    case (Some p)
    then have "TokenAccount_serialize c st p = serializeChain c xs"
      using rest Cons.IH by simp
    moreover have "xs \<noteq> []" using rest Some isChain_Some_nonempty by metis
    then obtain sp where "serializeChain c xs = Some sp"
      by (cases xs) auto
    ultimately show ?thesis
      using Some x by (subst TokenAccount_serialize.simps) (simp add: snapshotOf_def)
  qed
qed

lemma chainBelow_isChain: "chainBelow n st p xs \<Longrightarrow> isChain st p xs"
  by (induction xs arbitrary: p) (auto split: option.splits)

lemma chainBelow_frame:
  "chainBelow n st p xs \<Longrightarrow> (\<And>a. a < n \<Longrightarrow> objs st' a = objs st a) \<Longrightarrow> n \<le> n' \<Longrightarrow>
   chainBelow n' st' p xs"
  by (induction xs arbitrary: p) (auto split: option.splits)

lemma isChain_chainBelow:
  assumes "wellFormed st"
  shows "isChain st (Some a) xs \<Longrightarrow> a < nextAddr st \<Longrightarrow> chainBelow (nextAddr st) st (Some a) xs"
proof (induction xs arbitrary: a)
  case Nil
  then show ?case by simp
next
  case (Cons x xs)
  show ?case
  proof (cases "previous (objs st a)")
    case None
    then show ?thesis using Cons.prems by (cases xs) simp_all
  next
    case (Some p)
    then have "p < nextAddr st"
      using assms Cons.prems(2) by (auto simp: wellFormed_def list_all_iff split: option.splits)
    then show ?thesis using Cons Some by simp
  qed
qed

lemma from_serializeChain:
  assumes keys: "\<And>k. newPublicKey c (toBase58 c k) = k"
    and decimals: "\<And>d. newDecimal c (decimalToString c d) = d"
  shows "serializeChain c xs = Some s \<Longrightarrow>
         chainBelow (nextAddr (snd (TokenAccount_from c s st))) (snd (TokenAccount_from c s st))
           (Some (fst (TokenAccount_from c s st))) xs \<and>
         nextAddr st \<le> fst (TokenAccount_from c s st) \<and>
         nextAddr st \<le> nextAddr (snd (TokenAccount_from c s st)) \<and>
         (\<forall>a < nextAddr st. objs (snd (TokenAccount_from c s st)) a = objs st a)"
proof (induction xs arbitrary: s st)
  case Nil
  then show ?case by simp
next
  case (Cons x xs)
  obtain m a b slot where x: "x = (m, a, b, slot)" by (cases x) auto
  note tok = Token_round_trip [of c, OF keys decimals]
  show ?case
  proof (cases "serializeChain c xs")
    case None
    then have xs: "xs = []" by (cases xs) auto
    have s: "s = SerializableTokenAccount (Token_serialize c m) (toBase58 c a)
                   (decimalToString c b) slot None"
      using Cons.prems None x by simp
    show ?thesis
      unfolding s xs x
      by (simp add: newTokenAccount_def alloc_def tok keys decimals snapshotOf_def toDecimal_def)
  next
    case (Some sp)
    have s: "s = SerializableTokenAccount (Token_serialize c m) (toBase58 c a)
                   (decimalToString c b) slot (Some sp)"
      using Cons.prems Some x by simp
    obtain p st1 where rec: "TokenAccount_from c sp st = (p, st1)"
      by (cases "TokenAccount_from c sp st") auto
    from Cons.IH [OF Some, of st] rec have
      ih: "chainBelow (nextAddr st1) st1 (Some p) xs" "nextAddr st \<le> p"
        "nextAddr st \<le> nextAddr st1" "\<forall>a < nextAddr st. objs st1 a = objs st a"
      by simp_all
    define obj where "obj = \<lparr>lastUpdatedSlot = slot, previous = Some p, mint = m,
            tokenAccount.address = a, balance = b\<rparr>"
    define st' where "st' = \<lparr>objs = (objs st1)(nextAddr st1 := obj), nextAddr = Suc (nextAddr st1)\<rparr>"
    have res: "TokenAccount_from c s st = (nextAddr st1, st')"
      unfolding s using rec
      by (simp add: newTokenAccount_def alloc_def tok keys decimals toDecimal_def st'_def obj_def)
    have "chainBelow (Suc (nextAddr st1)) st' (Some p) xs"
      using ih(1) by (rule chainBelow_frame) (simp_all add: st'_def)
    then have "chainBelow (nextAddr st') st' (Some (nextAddr st1)) (x # xs)"
      by (simp add: st'_def obj_def x snapshotOf_def)
    moreover have "\<forall>a < nextAddr st. objs st' a = objs st a"
      using ih(3,4) by (simp add: st'_def)
    ultimately show ?thesis
      unfolding res using ih(3) by (simp add: st'_def)
  qed
qed

text \<open>
  C8. For every token account \<open>a\<close> that can be serialized (the chain of its \<^verbatim>\<open>previous\<close>
  references ends), \<^verbatim>\<open>TokenAccount.from(a.serialize())\<close> is a new object that is
  structurally equal to \<open>a\<close> with its entire history: the chains from the two objects carry
  the same snapshots, link by link. The printers and parsers of the key and decimal
  libraries are taken to round-trip.
\<close>

theorem serialize_round_trip:
  assumes keys: "\<forall>k. newPublicKey c (toBase58 c k) = k"
    and decimals: "\<forall>d. newDecimal c (decimalToString c d) = d"
    and chain: "isChain st (Some this) xs"
    and exists: "this < nextAddr st" and wf: "wellFormed st"
  shows "\<exists>s. TokenAccount_serialize c st this = Some s \<and>
             isChain (snd (TokenAccount_from c s st)) (Some (fst (TokenAccount_from c s st))) xs \<and>
             isChain (snd (TokenAccount_from c s st)) (Some this) xs \<and>
             fst (TokenAccount_from c s st) \<noteq> this"
proof -
  have "xs \<noteq> []" using chain by (rule isChain_Some_nonempty)
  then obtain s where s: "serializeChain c xs = Some s"
    by (cases xs) auto
  have ser: "TokenAccount_serialize c st this = Some s"
    using serialize_isChain [OF chain] s by simp
  from from_serializeChain [of c xs s st] keys decimals s have
    new: "chainBelow (nextAddr (snd (TokenAccount_from c s st))) (snd (TokenAccount_from c s st))
           (Some (fst (TokenAccount_from c s st))) xs" and
    fresh: "nextAddr st \<le> fst (TokenAccount_from c s st)" and
    grows: "nextAddr st \<le> nextAddr (snd (TokenAccount_from c s st))" and
    frame: "\<forall>a < nextAddr st. objs (snd (TokenAccount_from c s st)) a = objs st a"
    by simp_all
  have old: "chainBelow (nextAddr st) st (Some this) xs"
    using wf chain exists by (rule isChain_chainBelow)
  have "chainBelow (nextAddr (snd (TokenAccount_from c s st))) (snd (TokenAccount_from c s st))
      (Some this) xs"
    by (rule chainBelow_frame [OF old]) (use frame grows in auto)
  then have "isChain (snd (TokenAccount_from c s st)) (Some this) xs"
    by (rule chainBelow_isChain)
  moreover have "isChain (snd (TokenAccount_from c s st)) (Some (fst (TokenAccount_from c s st))) xs"
    using new by (rule chainBelow_isChain)
  moreover have "fst (TokenAccount_from c s st) \<noteq> this"
    using fresh exists by simp
  ultimately show ?thesis
    using ser by simp
qed

lemma exampleCodec_keys: "newPublicKey exampleCodec (toBase58 exampleCodec k) = k"
  by (cases k) (simp add: exampleCodec_def)

lemma takeWhile_strokes:
  "takeWhile (\<lambda>ch. ch \<noteq> CHR ''/'') (replicate n (CHR ''1'') @ CHR ''/'' # rest) =
   replicate n (CHR ''1'')"
  by (induction n) simp_all

lemma exampleCodec_decimals: "newDecimal exampleCodec (decimalToString exampleCodec d) = d"
proof -
  obtain a b where q: "quotient_of d = (a, b)" by (cases "quotient_of d") auto
  then have d: "d = of_int a / of_int b" and b: "0 < b"
    by (simp_all add: quotient_of_div quotient_of_denom_pos)
  define n where "n = (if 0 \<le> a then 2 * nat a else 2 * nat (- a) + 1)"
  have num: "(if even n then rat_of_nat (n div 2) else - rat_of_nat (n div 2)) = of_int a"
  proof (cases "0 \<le> a")
    case True
    then show ?thesis by (simp add: n_def)
  next
    case False
    then have "n = 2 * nat (- a) + 1" by (simp add: n_def)
    then have "odd n" "n div 2 = nat (- a)" by simp_all
    then show ?thesis using False by simp
  qed
  have str: "decimalToString exampleCodec d =
      replicate n (CHR ''1'') @ CHR ''/'' # replicate (nat b) (CHR ''1'')"
    by (simp add: exampleCodec_def q n_def)
  have "newDecimal exampleCodec (decimalToString exampleCodec d) =
        (if even n then rat_of_nat (n div 2) else - rat_of_nat (n div 2)) / of_nat (nat b)"
    unfolding str by (simp add: exampleCodec_def takeWhile_strokes Let_def)
  then show ?thesis using d b num by simp
qed

theorem serialize_round_trip_witness:
  "(\<forall>k. newPublicKey exampleCodec (toBase58 exampleCodec k) = k) \<and>
   (\<forall>d. newDecimal exampleCodec (decimalToString exampleCodec d) = d) \<and>
   isChain exampleHistory (Some 1)
     [(exampleToken, PublicKey 10, 3, Some 9), (exampleToken, PublicKey 10, 1, Some 7)] \<and>
   1 < nextAddr exampleHistory \<and> wellFormed exampleHistory \<and>
   (\<exists>s. TokenAccount_serialize exampleCodec exampleHistory 1 = Some s \<and>
        isChain (snd (TokenAccount_from exampleCodec s exampleHistory))
          (Some (fst (TokenAccount_from exampleCodec s exampleHistory)))
          [(exampleToken, PublicKey 10, 3, Some 9), (exampleToken, PublicKey 10, 1, Some 7)] \<and>
        fst (TokenAccount_from exampleCodec s exampleHistory) \<noteq> 1)"
proof -
  have h1: "\<forall>k. newPublicKey exampleCodec (toBase58 exampleCodec k) = k"
    by (simp add: exampleCodec_keys)
  have h2: "\<forall>d. newDecimal exampleCodec (decimalToString exampleCodec d) = d"
    by (simp add: exampleCodec_decimals)
  have h3: "isChain exampleHistory (Some 1)
     [(exampleToken, PublicKey 10, 3, Some 9), (exampleToken, PublicKey 10, 1, Some 7)]"
    by (simp add: exampleHistory_def exampleHolder_def snapshotOf_def)
  have h4: "1 < nextAddr exampleHistory" by (simp add: exampleHistory_def)
  have h5: "wellFormed exampleHistory"
    by (simp add: wellFormed_def exampleHistory_def exampleHolder_def upt_rec)
  show ?thesis
    using serialize_round_trip [OF h1 h2 h3 h4 h5] h1 h2 h3 h4 h5 by blast
qed

end
